theory Spec2Isabelle
  imports Complex_Main
begin

section \<open>Data model\<close>

text \<open>
  Times are milliseconds since the epoch. Candle open and close times come from the
  \<^verbatim>\<open>BIGINT\<close> columns of the \<^verbatim>\<open>candles\<close> table and from the exchange, so they are
  integers; prices and volumes are real numbers. A time or a chart position that the user
  interface computes (a pointer position, a logical index) is a real number. Arithmetic on
  times and indices is exact; the moving average, whose claim is about the value of an
  arithmetic expression, is computed with the rounding of doubles.
\<close>

datatype Interval = I5m | I15m | I1h | I4h | I1D | I1W | I1M

text \<open>\<^verbatim>\<open>intervalMsMap\<close> of the backend and \<^verbatim>\<open>INTERVAL_MS\<close> of the frontend.\<close>

fun intervalMsMap :: "Interval \<Rightarrow> int" where
  "intervalMsMap I5m = 5 * 60 * 1000"
| "intervalMsMap I15m = 15 * 60 * 1000"
| "intervalMsMap I1h = 60 * 60 * 1000"
| "intervalMsMap I4h = 4 * 60 * 60 * 1000"
| "intervalMsMap I1D = 24 * 60 * 60 * 1000"
| "intervalMsMap I1W = 7 * 24 * 60 * 60 * 1000"
| "intervalMsMap I1M = 30 * 24 * 60 * 60 * 1000"

fun INTERVAL_MS :: "Interval \<Rightarrow> int" where
  "INTERVAL_MS I5m = 5 * 60 * 1000"
| "INTERVAL_MS I15m = 15 * 60 * 1000"
| "INTERVAL_MS I1h = 60 * 60 * 1000"
| "INTERVAL_MS I4h = 4 * 60 * 60 * 1000"
| "INTERVAL_MS I1D = 24 * 60 * 60 * 1000"
| "INTERVAL_MS I1W = 7 * 24 * 60 * 60 * 1000"
| "INTERVAL_MS I1M = 30 * 24 * 60 * 60 * 1000"

record Candle =
  symbol :: string
  interval :: Interval
  openTime :: int
  closeTime :: int
  open_p :: real
  high :: real
  low :: real
  close :: real
  volume :: real

section \<open>Backend: the sync handler\<close>

text \<open>
  One row of the exchange's kline answer, in the order \<^verbatim>\<open>fetchKlines\<close> reads it:
  open time, open, high, low, close, volume, close time.
\<close>

type_synonym kline = "int \<times> real \<times> real \<times> real \<times> real \<times> real \<times> int"

datatype sync_error = TransportError

text \<open>
  The HTTP request of \<^verbatim>\<open>fetchKlines\<close> goes to the exchange, which is outside the
  repository: it is a parameter, from symbol, interval, start time, end time and limit to
  the rows of the answer or a transport error (a timeout, a failed request).
\<close>

type_synonym klines_api =
  "string \<Rightarrow> Interval \<Rightarrow> int \<Rightarrow> int \<Rightarrow> nat \<Rightarrow> sync_error + kline list"

definition toCandle :: "string \<Rightarrow> Interval \<Rightarrow> kline \<Rightarrow> Candle" where
  "toCandle smb iv row =
     (case row of (ot, opn, hi, lo, cl, vol, ct) \<Rightarrow>
        \<lparr>symbol = smb, interval = iv, openTime = ot, closeTime = ct,
         open_p = opn, high = hi, low = lo, close = cl, volume = vol\<rparr>)"

definition fetchKlines ::
  "klines_api \<Rightarrow> string \<Rightarrow> Interval \<Rightarrow> int \<Rightarrow> int \<Rightarrow> nat \<Rightarrow> sync_error + Candle list" where
  "fetchKlines api smb iv startTime endTime limit =
     (case api smb iv startTime endTime limit of
        Inl e \<Rightarrow> Inl e
      | Inr rows \<Rightarrow> Inr (map (toCandle smb iv) rows))"

text \<open>
  The \<^verbatim>\<open>candles\<close> table is the list of its rows. Its primary key is
  (symbol, interval, open time); \<^verbatim>\<open>INSERT ... ON CONFLICT DO NOTHING\<close> adds the row
  unless a row with the same key is there.
\<close>

definition candle_key :: "Candle \<Rightarrow> string \<times> Interval \<times> int" where
  "candle_key c = (symbol c, interval c, openTime c)"

definition insert_ignore :: "Candle list \<Rightarrow> Candle \<Rightarrow> Candle list" where
  "insert_ignore tbl c = (if candle_key c \<in> set (map candle_key tbl) then tbl else tbl @ [c])"

text \<open>\<^verbatim>\<open>SELECT MAX(open_time) ... WHERE symbol = $1 AND interval = $2\<close>; NULL on no row.\<close>

definition max_open_time :: "Candle list \<Rightarrow> string \<Rightarrow> Interval \<Rightarrow> int option" where
  "max_open_time tbl smb iv =
     (let ts = map openTime (filter (\<lambda>r. symbol r = smb \<and> interval r = iv) tbl)
      in if ts = [] then None else Some (fold max ts (hd ts)))"

definition twoYearsMs :: int where
  "twoYearsMs = 2 * 365 * 24 * 60 * 60 * 1000"

text \<open>The cursor before the loop: \<^verbatim>\<open>Number(max_open_time ?? 0)\<close>, then the conditional.\<close>

definition initial_cursor :: "int \<Rightarrow> Candle list \<Rightarrow> string \<Rightarrow> Interval \<Rightarrow> int" where
  "initial_cursor now tbl smb iv =
     (let maxOpenTime = (case max_open_time tbl smb iv of None \<Rightarrow> 0 | Some m \<Rightarrow> m);
          twoYearsAgo = now - twoYearsMs;
          stepMs = intervalMsMap iv
      in if maxOpenTime > 0 then max twoYearsAgo (maxOpenTime - stepMs) else twoYearsAgo)"

record sync_state =
  cursor :: int
  inserted :: nat
  table :: "Candle list"

text \<open>
  One pass through the body of \<^verbatim>\<open>while (cursor < now)\<close>: the loop ends (\<open>Break\<close>, also when
  the condition is false), goes round again (\<open>Continue\<close>) or the fetch throws.
  The page is written in one transaction, which is modelled as succeeding.
\<close>

datatype loop_step = Break sync_state | Continue sync_state | Throw sync_error sync_state

definition sync_page :: "klines_api \<Rightarrow> string \<Rightarrow> Interval \<Rightarrow> int \<Rightarrow> sync_state \<Rightarrow> loop_step" where
  "sync_page api smb iv now st =
     (if cursor st < now then
        (case fetchKlines api smb iv (cursor st) now 1000 of
           Inl e \<Rightarrow> Throw e st
         | Inr batch \<Rightarrow>
             if length batch = 0 then Break st
             else
               let st' = \<lparr>cursor = openTime (last batch) + intervalMsMap iv,
                          inserted = inserted st + length batch,
                          table = foldl insert_ignore (table st) batch\<rparr>
               in if length batch < 1000 then Break st' else Continue st')
      else Break st)"

datatype sync_result = Responded sync_state | Failed sync_error sync_state

partial_function (option) sync_loop ::
  "klines_api \<Rightarrow> string \<Rightarrow> Interval \<Rightarrow> int \<Rightarrow> sync_state \<Rightarrow> sync_result option" where
  "sync_loop api smb iv now st =
     (case sync_page api smb iv now st of
        Break s \<Rightarrow> Some (Responded s)
      | Throw e s \<Rightarrow> Some (Failed e s)
      | Continue s \<Rightarrow> sync_loop api smb iv now s)"

text \<open>
  \<^verbatim>\<open>POST /api/sync\<close> for a body that parsed: \<open>now\<close> is \<^verbatim>\<open>Date.now()\<close>, \<open>tbl\<close> the table
  when the request arrives. The response carries \<open>inserted\<close> of the final state.
\<close>

definition sync :: "klines_api \<Rightarrow> int \<Rightarrow> Candle list \<Rightarrow> string \<Rightarrow> Interval \<Rightarrow> sync_result option" where
  "sync api now tbl smb iv =
     sync_loop api smb iv now
       \<lparr>cursor = initial_cursor now tbl smb iv, inserted = 0, table = tbl\<rparr>"

fun result_state :: "sync_result \<Rightarrow> sync_state" where
  "result_state (Responded s) = s"
| "result_state (Failed e s) = s"

text \<open>
  An exchange that answers from a fixed list of bars: the first \<open>limit\<close> bars that open
  between the start and the end time. It stands for the upstream in the examples.
\<close>

definition exchange :: "kline list \<Rightarrow> klines_api" where
  "exchange bars smb iv startTime endTime limit =
     Inr (take limit (filter (\<lambda>k. startTime \<le> fst k \<and> fst k \<le> endTime) bars))"

definition bar :: "int \<Rightarrow> kline" where
  "bar t = (t, 1, 1, 1, 1, 1, t + 299999)"


section \<open>Backend: updating a drawing\<close>

datatype DrawingType = hline | rect | fibo | pricerange | longpos | shortpos

record DrawingPoint =
  time :: real
  price :: real

text \<open>The style bag is a JSON object: its keys in order, each with a value.\<close>

datatype json = JStr string | JNum real | JNums "real list"

type_synonym style_bag = "(string \<times> json) list"

record Drawing =
  id_d :: int
  symbol_d :: string
  type_d :: DrawingType
  points :: "DrawingPoint list"
  style :: style_bag
  created_at :: int
  updated_at :: int

text \<open>
  The body of \<^verbatim>\<open>PUT /api/drawings/:id\<close> as \<^verbatim>\<open>drawingsSchema.partial()\<close> types it: every
  field may be absent, and an absent field stays absent (the defaults of the schema fill
  in a body of the create endpoint, not an optional field). Of the schema's checks only
  \<^verbatim>\<open>points ... .min(1)\<close> is not a matter of type.
\<close>

record patch_fields =
  symbol_f :: "string option"
  type_f :: "DrawingType option"
  points_f :: "DrawingPoint list option"
  style_f :: "style_bag option"

definition safeParse_partial :: "patch_fields \<Rightarrow> patch_fields option" where
  "safeParse_partial body = (case points_f body of Some [] \<Rightarrow> None | _ \<Rightarrow> Some body)"

datatype assignment =
  SetType DrawingType | SetPoints "DrawingPoint list" | SetStyle style_bag | SetSymbol string

text \<open>
  The \<^verbatim>\<open>sets\<close> of the handler, in its order. A type, an array and an object are truthy
  when present; a string is truthy when it is not empty.
\<close>

definition put_sets :: "patch_fields \<Rightarrow> assignment list" where
  "put_sets flds =
     (case type_f flds of Some t \<Rightarrow> [SetType t] | None \<Rightarrow> []) @
     (case points_f flds of Some ps \<Rightarrow> [SetPoints ps] | None \<Rightarrow> []) @
     (case style_f flds of Some sty \<Rightarrow> [SetStyle sty] | None \<Rightarrow> []) @
     (case symbol_f flds of Some s \<Rightarrow> (if s \<noteq> [] then [SetSymbol s] else []) | None \<Rightarrow> [])"

fun apply_set :: "assignment \<Rightarrow> Drawing \<Rightarrow> Drawing" where
  "apply_set (SetType t) r = r\<lparr>type_d := t\<rparr>"
| "apply_set (SetPoints ps) r = r\<lparr>points := ps\<rparr>"
| "apply_set (SetStyle sty) r = r\<lparr>style := sty\<rparr>"
| "apply_set (SetSymbol s) r = r\<lparr>symbol_d := s\<rparr>"

text \<open>\<^verbatim>\<open>UPDATE drawings SET ..., updated_at = NOW() WHERE id = $n RETURNING ...\<close>\<close>

definition update_drawings :: "int \<Rightarrow> assignment list \<Rightarrow> int \<Rightarrow> Drawing list \<Rightarrow> Drawing list" where
  "update_drawings now sets i tbl =
     map (\<lambda>r. if id_d r = i then (fold apply_set sets r)\<lparr>updated_at := now\<rparr> else r) tbl"

datatype put_response = Ok200 Drawing | BadRequest400 | NotFound404

text \<open>The handler for a numeric id: the response and the table after it.\<close>

definition put_drawing ::
  "int \<Rightarrow> Drawing list \<Rightarrow> int \<Rightarrow> patch_fields \<Rightarrow> put_response \<times> Drawing list" where
  "put_drawing now tbl i body =
     (case safeParse_partial body of
        None \<Rightarrow> (BadRequest400, tbl)
      | Some flds \<Rightarrow>
          let sets = put_sets flds in
          if length sets = 0 then (BadRequest400, tbl)
          else
            let tbl' = update_drawings now sets i tbl;
                rows = filter (\<lambda>r. id_d r = i) tbl'
            in (case rows of [] \<Rightarrow> (NotFound404, tbl') | r # _ \<Rightarrow> (Ok200 r, tbl')))"

section \<open>Frontend: the coordinate mapper\<close>

text \<open>A JavaScript number: a finite real, or one of the three values that are not.\<close>

datatype jsnum = Finite real | NaN | PosInfinity | NegInfinity

fun Number_isFinite :: "jsnum \<Rightarrow> bool" where
  "Number_isFinite (Finite x) = True"
| "Number_isFinite NaN = False"
| "Number_isFinite PosInfinity = False"
| "Number_isFinite NegInfinity = False"

text \<open>\<^verbatim>\<open>Math.round\<close>: the nearest integer, a half going up.\<close>

definition Math_round :: "real \<Rightarrow> int" where
  "Math_round x = \<lfloor>x + 1 / 2\<rfloor>"

text \<open>\<^verbatim>\<open>xs.slice(0, e)\<close>: a negative end counts from the end of the array.\<close>

definition slice0 :: "'a list \<Rightarrow> int \<Rightarrow> 'a list" where
  "slice0 xs e = (if e < 0 then take (nat (int (length xs) + e)) xs else take (nat e) xs)"

definition displayedCandles :: "Candle list \<Rightarrow> int option \<Rightarrow> Candle list" where
  "displayedCandles candles currentReplayIndex =
     (case currentReplayIndex of None \<Rightarrow> candles | Some i \<Rightarrow> slice0 candles (i + 1))"

text \<open>The loop of \<^verbatim>\<open>nearestCandleIndex\<close> over \<open>i = 1, ..., length - 1\<close>.\<close>

fun nearest_scan :: "Candle list \<Rightarrow> real \<Rightarrow> nat list \<Rightarrow> nat \<times> real \<Rightarrow> nat \<times> real" where
  "nearest_scan candles target [] acc = acc"
| "nearest_scan candles target (i # is) (best, bestDiff) =
     (let diff = \<bar>real_of_int (openTime (candles ! i)) - target\<bar>
      in if diff < bestDiff then nearest_scan candles target is (i, diff)
         else nearest_scan candles target is (best, bestDiff))"

definition nearestCandleIndex :: "Candle list \<Rightarrow> real \<Rightarrow> int" where
  "nearestCandleIndex candles targetTimeMs =
     (if length candles = 0 then - 1
      else int (fst (nearest_scan candles targetTimeMs [1..<length candles]
                       (0, \<bar>real_of_int (openTime (candles ! 0)) - targetTimeMs\<bar>))))"

definition logicalToTimeMs :: "Interval \<Rightarrow> Candle list \<Rightarrow> int option \<Rightarrow> jsnum \<Rightarrow> int option" where
  "logicalToTimeMs iv candles currentReplayIndex logical =
     (case logical of
        Finite l \<Rightarrow>
          let rounded = Math_round l;
              stepMs = INTERVAL_MS iv;
              displayed = displayedCandles candles currentReplayIndex
          in if length candles > 0 \<and> rounded \<ge> 0 \<and> rounded < int (length candles)
             then Some (openTime (candles ! nat rounded))
             else if length displayed = 0 then None
             else
               let first = openTime (displayed ! 0);
                   lastDisplayed = openTime (displayed ! (length displayed - 1))
               in if rounded < 0 then Some (first + rounded * stepMs)
                  else
                    let lastVisibleIndex = int (length displayed) - 1
                    in Some (lastDisplayed + (rounded - lastVisibleIndex) * stepMs)
      | NaN \<Rightarrow> None
      | PosInfinity \<Rightarrow> None
      | NegInfinity \<Rightarrow> None)"

definition timeMsToLogical :: "Interval \<Rightarrow> Candle list \<Rightarrow> jsnum \<Rightarrow> real option" where
  "timeMsToLogical iv candles timeMs =
     (case timeMs of
        Finite t \<Rightarrow>
          if length candles = 0 then None
          else
            let stepMs = INTERVAL_MS iv;
                firstTime = openTime (candles ! 0);
                lastTime = openTime (candles ! (length candles - 1))
            in if t \<le> real_of_int firstTime
               then Some ((t - real_of_int firstTime) / real_of_int stepMs)
               else if t \<ge> real_of_int lastTime
               then Some (real (length candles) - 1 + (t - real_of_int lastTime) / real_of_int stepMs)
               else
                 let idx = nearestCandleIndex candles t
                 in if idx \<ge> 0 then Some (real_of_int idx) else None
      | NaN \<Rightarrow> None
      | PosInfinity \<Rightarrow> None
      | NegInfinity \<Rightarrow> None)"


text \<open>A candle that opens at \<open>t\<close>, for the examples.\<close>

definition candle_at :: "int \<Rightarrow> Candle" where
  "candle_at t = toCandle ''BTCUSDT'' I5m (bar t)"

section \<open>Frontend: the replay controller\<close>


record replay =
  replayStartIndex :: "int option"
  currentReplayIndex :: "int option"
  replayRunning :: bool
  speed :: nat

















section \<open>Frontend: derived series\<close>

subsection \<open>Monday bands\<close>

text \<open>
  The \<^verbatim>\<open>Date\<close> methods the code calls, by their definitions in the language standard:
  the day number of a time value is \<open>t div msPerDay\<close> (rounding down), its weekday is
  \<open>(day + 4) mod 7\<close> with 0 for Sunday, \<^verbatim>\<open>setUTCHours(0, 0, 0, 0)\<close> goes to the start of
  the day, and \<^verbatim>\<open>setUTCDate(getUTCDate() - k)\<close> goes \<open>k\<close> days back.
\<close>

definition msPerDay :: int where
  "msPerDay = 24 * 60 * 60 * 1000"

definition getUTCDay :: "int \<Rightarrow> int" where
  "getUTCDay t = (t div msPerDay + 4) mod 7"

definition startOfUtcMonday :: "int \<Rightarrow> int" where
  "startOfUtcMonday timeMs =
     (let day = getUTCDay timeMs;
          diffToMonday = (day + 6) mod 7
      in (timeMs div msPerDay - diffToMonday) * msPerDay)"

record MondayRange =
  weekStartMs :: int
  weekEndMs :: int
  mondayHigh :: real
  mondayLow :: real

text \<open>
  The \<^verbatim>\<open>Map\<close> from week start to bucket keeps its keys in the order of their first
  insertion: a list of pairs.
\<close>

fun bucket_push :: "int \<Rightarrow> Candle \<Rightarrow> (int \<times> Candle list) list \<Rightarrow> (int \<times> Candle list) list" where
  "bucket_push k c [] = [(k, [c])]"
| "bucket_push k c ((k', bucket) # rest) =
     (if k' = k then (k', bucket @ [c]) # rest else (k', bucket) # bucket_push k c rest)"

definition grouped :: "Candle list \<Rightarrow> (int \<times> Candle list) list" where
  "grouped displayed =
     foldl (\<lambda>g c. bucket_push (startOfUtcMonday (openTime c)) c g) [] displayed"

definition isMonday :: "Candle \<Rightarrow> bool" where
  "isMonday c = (getUTCDay (openTime c) = 1)"

definition scan_high :: "Candle list \<Rightarrow> real" where
  "scan_high mondayCandles =
     foldl (\<lambda>h c. if high c > h then high c else h) (high (mondayCandles ! 0)) mondayCandles"

definition scan_low :: "Candle list \<Rightarrow> real" where
  "scan_low mondayCandles =
     foldl (\<lambda>l c. if low c < l then low c else l) (low (mondayCandles ! 0)) mondayCandles"

definition oneWeekMs :: int where
  "oneWeekMs = 7 * 24 * 60 * 60 * 1000"

text \<open>The body of the loop over the entries of the map: no band, or one.\<close>

definition week_range :: "Interval \<Rightarrow> int \<times> Candle list \<Rightarrow> MondayRange list" where
  "week_range iv entry =
     (case entry of (weekStart, weekCandles) \<Rightarrow>
        let mondayCandles = filter isMonday weekCandles
        in if length mondayCandles = 0 then []
           else [\<lparr>weekStartMs = weekStart,
                   weekEndMs = weekStart + oneWeekMs - INTERVAL_MS iv,
                   mondayHigh = scan_high mondayCandles,
                   mondayLow = scan_low mondayCandles\<rparr>])"

definition mondayRanges :: "Interval \<Rightarrow> Candle list \<Rightarrow> MondayRange list" where
  "mondayRanges iv displayed =
     (if length displayed = 0 then []
      else sort_key weekStartMs (concat (map (week_range iv) (grouped displayed))))"

text \<open>
  The weeks of the calendar, stated from the calendar and not from the code, to compare the
  code with. Time 0 is the midnight that begins Thursday 1 January 1970 in UTC, so the
  first Monday midnight is 4 days = 345600000 ms after it, and a week is 604800000 ms.
  The week of a time starts at the last Monday midnight at or before it; a time is on a
  Monday when it is less than a day (86400000 ms) after the start of its week.
\<close>

definition iso_week_start :: "int \<Rightarrow> int" where
  "iso_week_start t = 345600000 + (t - 345600000) div 604800000 * 604800000"

definition on_utc_monday :: "int \<Rightarrow> bool" where
  "on_utc_monday t = ((t - 345600000) mod 604800000 < 86400000)"

text \<open>
  The displayed candles that open on the Monday of the calendar week starting at \<open>w\<close>.
\<close>

definition monday_candles_of :: "Candle list \<Rightarrow> int \<Rightarrow> Candle list" where
  "monday_candles_of displayed w =
     filter (\<lambda>c. on_utc_monday (openTime c) \<and> iso_week_start (openTime c) = w) displayed"

subsection \<open>Exponential moving average\<close>

record LineData =
  time_l :: int
  value_l :: real

definition toUtcTimestamp :: "int \<Rightarrow> int" where
  "toUtcTimestamp ms = ms div 1000"

text \<open>
  The prices are doubles and the moving average is computed in double arithmetic: every
  operation gives the double nearest to the exact result, a tie going to the even
  significand. \<open>binary64\<close> is that rounding for a significand of 53 bits; overflow and
  subnormal numbers are left out (the exponent is not bounded).
\<close>

definition round_half_even :: "real \<Rightarrow> int" where
  "round_half_even y =
     (let f = \<lfloor>y\<rfloor>; d = y - real_of_int f
      in if d < 1 / 2 then f else if 1 / 2 < d then f + 1 else if even f then f else f + 1)"

definition binary64 :: "real \<Rightarrow> real" where
  "binary64 x =
     (if x = 0 then 0
      else
        let ulp = 2 powr (real_of_int \<lfloor>log 2 \<bar>x\<bar>\<rfloor> - 52)
        in ulp * real_of_int (round_half_even (x / ulp)))"

text \<open>
  \<^verbatim>\<open>x.toFixed(4)\<close> writes the multiple of 1/10000 nearest to the exact value of \<open>x\<close>, a
  tie going away from zero (the method rounds the absolute value, taking the larger
  candidate on a tie); from \<open>10^21\<close> on it writes the number itself. \<^verbatim>\<open>Number\<close> reads
  what was written as a double.
\<close>

definition toFixed4 :: "real \<Rightarrow> real" where
  "toFixed4 x =
     (if \<bar>x\<bar> \<ge> 10 ^ 21 then x
      else if x < 0 then - (real_of_int \<lfloor>- x * 10000 + 1 / 2\<rfloor> / 10000)
      else real_of_int \<lfloor>x * 10000 + 1 / 2\<rfloor> / 10000)"

definition Number_toFixed4 :: "real \<Rightarrow> real" where
  "Number_toFixed4 x = binary64 (toFixed4 x)"

text \<open>The body of the loop: \<^verbatim>\<open>ema = (candle.close - ema) * multiplier + ema\<close>, then the push.\<close>

definition ema_step :: "real \<Rightarrow> real \<times> LineData list \<Rightarrow> Candle \<Rightarrow> real \<times> LineData list" where
  "ema_step multiplier acc candle =
     (case acc of (ema, result) \<Rightarrow>
        let ema' = binary64 (binary64 (binary64 (close candle - ema) * multiplier) + ema)
        in (ema',
            result @ [\<lparr>time_l = toUtcTimestamp (openTime candle),
                       value_l = Number_toFixed4 ema'\<rparr>]))"

definition computeEma :: "Candle list \<Rightarrow> real \<Rightarrow> LineData list" where
  "computeEma candles period =
     (if length candles = 0 \<or> period \<le> 0 then []
      else
        let multiplier = binary64 (2 / binary64 (period + 1))
        in snd (foldl (ema_step multiplier) (close (candles ! 0), []) candles))"

text \<open>
  The double computation \<open>(close - ema) * 1 + ema\<close> returns the close at every candle of
  the list, the running average being \<open>ema\<close> before the first candle and the close of
  the candle before afterwards.
\<close>

fun returns_closes :: "real \<Rightarrow> Candle list \<Rightarrow> bool" where
  "returns_closes ema [] = True"
| "returns_closes ema (c # cs) =
     (binary64 (binary64 (binary64 (close c - ema) * 1) + ema) = close c
      \<and> returns_closes (close c) cs)"

section \<open>Frontend: the annotation store\<close>

datatype PositionHandle = tp | sl | time_handle

text \<open>
  The part of the component's state that the mutations read and write.
  \<open>selectedDrawingRef\<close> is the copy of the selected drawing that an effect stores after
  each render.
\<close>

record client =
  drawings :: "Drawing list"
  selectedDrawingId :: "int option"
  selectedDrawingRef :: "Drawing option"
  draggingHandle :: "PositionHandle option"

datatype api_error = NetworkError | HttpError nat

text \<open>
  An asynchronous handler ends with its promise resolved, or rejected by the failed
  request; in both cases the state is what the handler had written until then.
\<close>

datatype outcome = Resolved client | Rejected api_error client

fun state_of :: "outcome \<Rightarrow> client" where
  "state_of (Resolved st) = st"
| "state_of (Rejected e st) = st"

record create_body =
  symbol_b :: string
  type_b :: DrawingType
  points_b :: "DrawingPoint list"
  style_b :: style_bag

definition SYMBOL :: string where
  "SYMBOL = ''BTCUSDT''"

text \<open>The style \<^verbatim>\<open>saveDrawing\<close> sends: three defaults, then what the type adds.\<close>

definition default_style :: "DrawingType \<Rightarrow> style_bag" where
  "default_style ty =
     [(''color'', JStr ''#60a5fa''), (''lineWidth'', JNum 2), (''lineStyle'', JStr ''solid'')]
     @ (if ty = rect then [(''fillColor'', JStr ''rgba(96, 165, 250, 0.2)'')] else [])
     @ (if ty = fibo then [(''levels'', JNums [0, 0.25, 0.5, 0.75, 1])] else [])
     @ (if ty = pricerange then [(''mode'', JStr ''tv'')] else [])
     @ (if ty = longpos \<or> ty = shortpos then [(''mode'', JStr ''position'')] else [])"

text \<open>The server is a parameter: what it answers to the request.\<close>

definition saveDrawing ::
  "(create_body \<Rightarrow> api_error + Drawing) \<Rightarrow> DrawingType \<Rightarrow> DrawingPoint list \<Rightarrow> client \<Rightarrow> outcome" where
  "saveDrawing post ty pts st =
     (case post \<lparr>symbol_b = SYMBOL, type_b = ty, points_b = pts, style_b = default_style ty\<rparr> of
        Inl e \<Rightarrow> Rejected e st
      | Inr d \<Rightarrow> Resolved (st\<lparr>drawings := drawings st @ [d], selectedDrawingId := Some (id_d d)\<rparr>))"

definition onDeleteDrawing :: "(int \<Rightarrow> api_error + unit) \<Rightarrow> int \<Rightarrow> client \<Rightarrow> outcome" where
  "onDeleteDrawing delete i st =
     (case delete i of
        Inl e \<Rightarrow> Rejected e st
      | Inr u \<Rightarrow>
          Resolved (st\<lparr>drawings := filter (\<lambda>d. id_d d \<noteq> i) (drawings st),
                        selectedDrawingId :=
                          (if selectedDrawingId st = Some i then None else selectedDrawingId st)\<rparr>))"

text \<open>\<^verbatim>\<open>{ ...a, ...b }\<close>: the keys of \<open>a\<close> in place, with the values of \<open>b\<close>; then the new keys.\<close>

fun set_key :: "string \<Rightarrow> json \<Rightarrow> style_bag \<Rightarrow> style_bag" where
  "set_key k v [] = [(k, v)]"
| "set_key k v ((k', v') # rest) =
     (if k' = k then (k', v) # rest else (k', v') # set_key k v rest)"

definition spread :: "style_bag \<Rightarrow> style_bag \<Rightarrow> style_bag" where
  "spread a b = foldl (\<lambda>acc kv. set_key (fst kv) (snd kv) acc) a b"

definition updateSelectedDrawingStyle ::
  "(int \<Rightarrow> patch_fields \<Rightarrow> api_error + unit) \<Rightarrow> style_bag \<Rightarrow> client \<Rightarrow> outcome" where
  "updateSelectedDrawingStyle put patch st =
     (case selectedDrawingRef st of
        None \<Rightarrow> Resolved st
      | Some selected \<Rightarrow>
          let nextStyle = spread (style selected) patch;
              st' = st\<lparr>drawings :=
                         map (\<lambda>d. if id_d d = id_d selected then d\<lparr>style := nextStyle\<rparr> else d)
                           (drawings st)\<rparr>
          in (case put (id_d selected)
                     \<lparr>symbol_f = None, type_f = None, points_f = None, style_f = Some nextStyle\<rparr> of
                Inl e \<Rightarrow> Rejected e st'
              | Inr u \<Rightarrow> Resolved st'))"

text \<open>
  The drag branch of \<^verbatim>\<open>onCanvasMove\<close>; \<open>dragPoint\<close> is what \<^verbatim>\<open>getPointFromEvent\<close> returned.
  The other branch of the handler does not write the drawings.
\<close>

definition drag_points :: "Interval \<Rightarrow> PositionHandle \<Rightarrow> DrawingPoint \<Rightarrow> DrawingPoint list \<Rightarrow> DrawingPoint list" where
  "drag_points iv handle dragPoint nextPoints =
     (case handle of
        tp \<Rightarrow> nextPoints[2 := (nextPoints ! 2)\<lparr>price := price dragPoint\<rparr>]
      | sl \<Rightarrow> nextPoints[1 := (nextPoints ! 1)\<lparr>price := price dragPoint\<rparr>]
      | time_handle \<Rightarrow>
          let minTime = time (nextPoints ! 0) + real_of_int (INTERVAL_MS iv)
          in nextPoints[3 := (nextPoints ! 3)\<lparr>time := max minTime (time dragPoint)\<rparr>])"

definition onCanvasMove :: "Interval \<Rightarrow> DrawingPoint option \<Rightarrow> client \<Rightarrow> client" where
  "onCanvasMove iv dragPoint st =
     (case (draggingHandle st, selectedDrawingRef st) of
        (Some handle, Some selected) \<Rightarrow>
          if type_d selected = longpos \<or> type_d selected = shortpos then
            (case dragPoint of
               None \<Rightarrow> st
             | Some p \<Rightarrow>
                 if length (points selected) < 4 then st
                 else
                   let nextPoints = drag_points iv handle p (points selected)
                   in st\<lparr>drawings :=
                           map (\<lambda>d. if id_d d = id_d selected then d\<lparr>points := nextPoints\<rparr> else d)
                             (drawings st)\<rparr>)
          else st
      | _ \<Rightarrow> st)"

definition onCanvasMouseUp :: "(int \<Rightarrow> patch_fields \<Rightarrow> api_error + unit) \<Rightarrow> client \<Rightarrow> outcome" where
  "onCanvasMouseUp put st =
     (case draggingHandle st of
        None \<Rightarrow> Resolved st
      | Some handle \<Rightarrow>
          let selected =
                (case selectedDrawingId st of
                   None \<Rightarrow> None
                 | Some selectedId \<Rightarrow> find (\<lambda>d. id_d d = selectedId) (drawings st));
              st' = st\<lparr>draggingHandle := None\<rparr>
          in (case selected of
                None \<Rightarrow> Resolved st'
              | Some d \<Rightarrow>
                  (case put (id_d d)
                          \<lparr>symbol_f = None, type_f = None, points_f = Some (points d), style_f = None\<rparr> of
                     Inl e \<Rightarrow> Rejected e st'
                   | Inr u \<Rightarrow> Resolved st')))"

text \<open>A stored horizontal line, for the examples.\<close>

definition drawing1 :: Drawing where
  "drawing1 =
     \<lparr>id_d = 1, symbol_d = ''BTCUSDT'', type_d = hline, points = [\<lparr>time = 0, price = 100\<rparr>],
      style = [], created_at = 0, updated_at = 0\<rparr>"


text \<open>A candle that opens at \<open>t\<close> with the given high, low and close, for the examples.\<close>

definition candle_with :: "int \<Rightarrow> real \<Rightarrow> real \<Rightarrow> real \<Rightarrow> Candle" where
  "candle_with t hi lo cl = toCandle ''BTCUSDT'' I5m (t, cl, hi, lo, cl, 1, t + 299999)"

text \<open>A stored long position and two states of the client, for the examples.\<close>

definition position2 :: Drawing where
  "position2 =
     \<lparr>id_d = 2, symbol_d = ''BTCUSDT'', type_d = longpos,
      points = [\<lparr>time = 1000000, price = 100\<rparr>, \<lparr>time = 1000000, price = 99\<rparr>,
                \<lparr>time = 1000000, price = 101\<rparr>, \<lparr>time = 13000000, price = 100\<rparr>],
      style = [(''mode'', JStr ''position'')], created_at = 0, updated_at = 0\<rparr>"

definition client1 :: client where
  "client1 =
     \<lparr>drawings = [drawing1, position2], selectedDrawingId = Some 1,
      selectedDrawingRef = Some drawing1, draggingHandle = None\<rparr>"

definition client2 :: "PositionHandle \<Rightarrow> client" where
  "client2 handle =
     \<lparr>drawings = [drawing1, position2], selectedDrawingId = Some 2,
      selectedDrawingRef = Some position2, draggingHandle = Some handle\<rparr>"

text \<open>
  Candles of three weeks, for the examples: two on Monday 5 January 1970, one on the
  Tuesday and one on the Sunday after it; one at 01:00 on Monday 12 January; and one on
  Wednesday 21 January, in a week with no Monday candle.
\<close>

definition week_candles :: "Candle list" where
  "week_candles =
     [candle_with 345600000 10 5 8, candle_with 345900000 12 7 9,
      candle_with 432000000 100 1 50, candle_with 864000000 200 2 20,
      candle_with 954000000 70 60 65, candle_with 1728000000 50 40 45]"

text \<open>
  A server that accepts one update only: for the drawing with id 2, with the given points
  and no other field. It answers 400 to every other request.
\<close>

definition points_only_server :: "DrawingPoint list \<Rightarrow> int \<Rightarrow> patch_fields \<Rightarrow> api_error + unit" where
  "points_only_server pts i body =
     (if i = 2 \<and> points_f body = Some pts \<and> symbol_f body = None \<and> type_f body = None
         \<and> style_f body = None
      then Inr () else Inl (HttpError 400))"

section \<open>Properties of the sync handler\<close>














lemma distinct_insert_ignore:
  "distinct (map candle_key tbl) \<Longrightarrow> distinct (map candle_key (insert_ignore tbl c))"
  by (simp add: insert_ignore_def)

lemma distinct_foldl_insert_ignore:
  "distinct (map candle_key tbl) \<Longrightarrow> distinct (map candle_key (foldl insert_ignore tbl batch))"
  by (induction batch arbitrary: tbl) (simp_all add: distinct_insert_ignore)

lemma foldl_insert_ignore_present:
  "\<forall>c\<in>set batch. candle_key c \<in> set (map candle_key tbl) \<Longrightarrow> foldl insert_ignore tbl batch = tbl"
  by (induction batch arbitrary: tbl) (simp_all add: insert_ignore_def)

lemma sync_page_table:
  assumes "sync_page api smb iv now st = r"
    and "r = Break s \<or> r = Continue s \<or> r = Throw e s"
  shows "(distinct (map candle_key (table st)) \<longrightarrow> distinct (map candle_key (table s)))
       \<and> ((\<forall>a b l rows. api smb iv a b l = Inr rows \<longrightarrow>
              (\<forall>k\<in>set rows. candle_key (toCandle smb iv k) \<in> set (map candle_key (table st))))
            \<longrightarrow> table s = table st)"
  using assms
  by (auto simp: sync_page_def fetchKlines_def Let_def distinct_foldl_insert_ignore
      foldl_insert_ignore_present split: if_splits sum.splits)

lemma sync_loop_table:
  assumes run: "sync_loop api smb iv now st = Some out"
  shows "(distinct (map candle_key (table st))
            \<longrightarrow> distinct (map candle_key (table (result_state out))))
       \<and> ((\<forall>a b l rows. api smb iv a b l = Inr rows \<longrightarrow>
              (\<forall>k\<in>set rows. candle_key (toCandle smb iv k) \<in> set (map candle_key (table st))))
            \<longrightarrow> table (result_state out) = table st)"
proof -
  let ?Q = "\<lambda>(api :: klines_api) smb iv (now :: int) st out.
      (distinct (map candle_key (table st))
            \<longrightarrow> distinct (map candle_key (table (result_state out))))
       \<and> ((\<forall>a b l rows. api smb iv a b l = Inr rows \<longrightarrow>
              (\<forall>k\<in>set rows. candle_key (toCandle smb iv k) \<in> set (map candle_key (table st))))
            \<longrightarrow> table (result_state out) = table st)"
  have "?Q api smb iv now st out"
  proof (rule sync_loop.raw_induct [where P = ?Q, OF _ run])
    fix loop :: "klines_api \<Rightarrow> string \<Rightarrow> Interval \<Rightarrow> int \<Rightarrow> sync_state \<Rightarrow> sync_result option"
    fix api smb iv now st out
    assume IH: "\<And>api smb iv now st out. loop api smb iv now st = Some out
                  \<Longrightarrow> ?Q api smb iv now st out"
      and eq: "(case sync_page api smb iv now st of
                  Break s \<Rightarrow> Some (Responded s)
                | Continue s \<Rightarrow> loop api smb iv now s
                | Throw e s \<Rightarrow> Some (Failed e s)) = Some out"
    show "?Q api smb iv now st out"
    proof (cases "sync_page api smb iv now st")
      case (Break s)
      with eq have "out = Responded s" by simp
      with sync_page_table [OF Break, of s] show ?thesis by simp
    next
      case (Throw e s)
      with eq have "out = Failed e s" by simp
      with sync_page_table [OF Throw, of s e] show ?thesis by simp
    next
      case (Continue s)
      with eq have "loop api smb iv now s = Some out" by simp
      from IH [OF this] sync_page_table [OF Continue, of s] show ?thesis by simp
    qed
  qed
  then show ?thesis .
qed

text \<open>
  Whatever the exchange answers, a sync keeps the primary key of the table; and when
  every bar it can answer with is already stored, the table after the sync is the table
  before it.
\<close>

lemma sync_keeps_primary_key:
  "sync api now tbl smb iv = Some out \<Longrightarrow> distinct (map candle_key tbl)
     \<Longrightarrow> distinct (map candle_key (table (result_state out)))"
  unfolding sync_def using sync_loop_table [of api smb iv now _ out] by simp

lemma sync_nothing_new:
  "sync api now tbl smb iv = Some out \<Longrightarrow>
   \<forall>a b l rows. api smb iv a b l = Inr rows \<longrightarrow>
      (\<forall>k\<in>set rows. candle_key (toCandle smb iv k) \<in> set (map candle_key tbl))
   \<Longrightarrow> table (result_state out) = tbl"
  unfolding sync_def using sync_loop_table [of api smb iv now _ out] by simp

text \<open>
  C1, evaluated. The exchange has two five-minute bars. The first run, on an empty table,
  stores both and reports \<open>inserted = 2\<close>. The second run, a minute later and with nothing
  new upstream, fetches the trailing bar again; the insert skips it, the table is the same
  with one row per key, and the run reports \<open>inserted = 1\<close> for a row that was already
  there: \<open>inserted\<close> counts the rows fetched, not the rows added.
\<close>

theorem sync_second_run_counts_refetched_rows:
  "sync (exchange [bar 1000000, bar 1300000]) (twoYearsMs + 1000000) [] ''BTCUSDT'' I5m
     = Some (Responded \<lparr>cursor = 1600000, inserted = 2,
                         table = [candle_at 1000000, candle_at 1300000]\<rparr>)
   \<and> sync (exchange [bar 1000000, bar 1300000]) (twoYearsMs + 1060000)
         [candle_at 1000000, candle_at 1300000] ''BTCUSDT'' I5m
     = Some (Responded \<lparr>cursor = 1600000, inserted = 1,
                         table = [candle_at 1000000, candle_at 1300000]\<rparr>)
   \<and> distinct (map candle_key [candle_at 1000000, candle_at 1300000])"
  by (simp add: sync_def sync_loop.simps sync_page_def fetchKlines_def exchange_def bar_def
      initial_cursor_def max_open_time_def twoYearsMs_def toCandle_def insert_ignore_def
      candle_key_def candle_at_def Let_def)

section \<open>Properties of the update endpoint\<close>

lemma fold_apply_set_type:
  "type_d (fold apply_set (put_sets flds) r) = (case type_f flds of None \<Rightarrow> type_d r | Some t \<Rightarrow> t)"
  by (simp add: put_sets_def split: option.splits)

lemma fold_apply_set_symbol:
  "symbol_d (fold apply_set (put_sets flds) r) =
     (case symbol_f flds of None \<Rightarrow> symbol_d r | Some s \<Rightarrow> if s \<noteq> [] then s else symbol_d r)"
  by (simp add: put_sets_def split: option.splits)

lemma fold_apply_set_id:
  "id_d (fold apply_set (put_sets flds) r) = id_d r"
  by (simp add: put_sets_def split: option.splits)

lemma put_drawing_Ok:
  assumes "put_drawing now tbl i body = (Ok200 r, tbl')"
  shows "tbl' = update_drawings now (put_sets body) i tbl"
  using assms
  by (auto simp: put_drawing_def safeParse_partial_def Let_def
      split: option.splits list.splits if_splits)

text \<open>
  C3, as amended. After an accepted patch (a 200 response) the table has the same rows
  with the same ids. A row keeps its type unless it is the row with the given id and the
  body has a \<open>type\<close> field, which then becomes its type; it keeps its symbol unless it is
  that row and the body has a \<open>symbol\<close> field that is not the empty string, which then
  becomes its symbol. So a patch that carries only points or style (what the client
  sends) leaves every type and symbol as they were.
\<close>

theorem put_drawing_type_symbol:
  assumes ok: "put_drawing now tbl i body = (Ok200 r, tbl')"
  shows "length tbl' = length tbl
     \<and> (\<forall>k<length tbl.
          id_d (tbl' ! k) = id_d (tbl ! k)
        \<and> type_d (tbl' ! k) =
            (if id_d (tbl ! k) = i
             then (case type_f body of None \<Rightarrow> type_d (tbl ! k) | Some t \<Rightarrow> t)
             else type_d (tbl ! k))
        \<and> symbol_d (tbl' ! k) =
            (if id_d (tbl ! k) = i
             then (case symbol_f body of
                     None \<Rightarrow> symbol_d (tbl ! k)
                   | Some s \<Rightarrow> if s \<noteq> [] then s else symbol_d (tbl ! k))
             else symbol_d (tbl ! k)))
     \<and> (type_f body = None \<and> (symbol_f body = None \<or> symbol_f body = Some [])
          \<longrightarrow> map type_d tbl' = map type_d tbl \<and> map symbol_d tbl' = map symbol_d tbl)"
proof -
  have t: "tbl' = update_drawings now (put_sets body) i tbl"
    using ok by (rule put_drawing_Ok)
  show ?thesis
    unfolding t update_drawings_def
    by (auto simp: fold_apply_set_type fold_apply_set_symbol fold_apply_set_id
        split: option.splits)
qed

theorem put_drawing_type_symbol_witness:
  "put_drawing 5 [drawing1] 1
      \<lparr>symbol_f = None, type_f = None, points_f = Some [\<lparr>time = 0, price = 150\<rparr>],
       style_f = None\<rparr>
     = (Ok200 (drawing1\<lparr>points := [\<lparr>time = 0, price = 150\<rparr>], updated_at := 5\<rparr>),
        [drawing1\<lparr>points := [\<lparr>time = 0, price = 150\<rparr>], updated_at := 5\<rparr>])
   \<and> map type_d [drawing1\<lparr>points := [\<lparr>time = 0, price = 150\<rparr>], updated_at := 5\<rparr>]
       = map type_d [drawing1]
   \<and> map symbol_d [drawing1\<lparr>points := [\<lparr>time = 0, price = 150\<rparr>], updated_at := 5\<rparr>]
       = map symbol_d [drawing1]"
proof -
  let ?body = "\<lparr>symbol_f = None, type_f = None,
                 points_f = Some [\<lparr>time = 0, price = 150\<rparr>], style_f = None\<rparr>"
  have ok: "put_drawing 5 [drawing1] 1 ?body
     = (Ok200 (drawing1\<lparr>points := [\<lparr>time = 0, price = 150\<rparr>], updated_at := 5\<rparr>),
        [drawing1\<lparr>points := [\<lparr>time = 0, price = 150\<rparr>], updated_at := 5\<rparr>])"
    by (simp add: put_drawing_def safeParse_partial_def put_sets_def update_drawings_def
        drawing1_def Let_def)
  have absent: "type_f ?body = None \<and> (symbol_f ?body = None \<or> symbol_f ?body = Some [])"
    by simp
  from put_drawing_type_symbol [OF ok] absent ok show ?thesis
    by blast
qed

text \<open>
  C3 as stated fails: a body with a \<open>type\<close> and a \<open>symbol\<close> field is accepted, and the
  stored horizontal line of BTCUSDT becomes a rectangle of ETHUSDT.
\<close>

theorem put_drawing_changes_type_and_symbol:
  "put_drawing 5 [drawing1] 1
      \<lparr>symbol_f = Some ''ETHUSDT'', type_f = Some rect, points_f = None, style_f = None\<rparr>
     = (Ok200 (drawing1\<lparr>symbol_d := ''ETHUSDT'', type_d := rect, updated_at := 5\<rparr>),
        [drawing1\<lparr>symbol_d := ''ETHUSDT'', type_d := rect, updated_at := 5\<rparr>])
   \<and> type_d drawing1 = hline \<and> symbol_d drawing1 = ''BTCUSDT''
   \<and> type_d (drawing1\<lparr>symbol_d := ''ETHUSDT'', type_d := rect, updated_at := 5\<rparr>)
       \<noteq> type_d drawing1
   \<and> symbol_d (drawing1\<lparr>symbol_d := ''ETHUSDT'', type_d := rect, updated_at := 5\<rparr>)
       \<noteq> symbol_d drawing1"
  by (simp add: put_drawing_def safeParse_partial_def put_sets_def update_drawings_def
        drawing1_def Let_def)

section \<open>Properties of the coordinate mapper\<close>













text \<open>
  C9. With no candle loaded both mappings return none, whatever the input and the replay
  index; and for an input that is not finite both return none, whatever is loaded.
\<close>

theorem mapping_none_when_unanswerable:
  "timeMsToLogical iv [] x = None
   \<and> logicalToTimeMs iv [] cur x = None
   \<and> (\<not> Number_isFinite x \<longrightarrow>
        timeMsToLogical iv candles x = None \<and> logicalToTimeMs iv candles cur x = None)"
  by (cases x) (simp_all add: timeMsToLogical_def logicalToTimeMs_def displayedCandles_def
      slice0_def Let_def split: option.splits)

theorem mapping_none_when_unanswerable_witness:
  "\<not> Number_isFinite NaN
   \<and> timeMsToLogical I5m [candle_at 0] NaN = None
   \<and> logicalToTimeMs I5m [candle_at 0] None NaN = None"
proof -
  have nf: "\<not> Number_isFinite NaN" by simp
  from mapping_none_when_unanswerable [of I5m NaN None "[candle_at 0]"] nf show ?thesis
    by blast
qed

section \<open>Properties of the replay controller\<close>












section \<open>Properties of the moving average\<close>

subsection \<open>Values of the rounding\<close>

lemma round_half_even_of_int: "round_half_even (real_of_int n) = n"
  by (simp add: round_half_even_def)

lemma binary64_at:
  assumes "x \<noteq> 0"
    and "2 powr real_of_int e \<le> \<bar>x\<bar>" and "\<bar>x\<bar> < 2 powr (real_of_int e + 1)"
  shows "binary64 x
           = 2 powr (real_of_int e - 52)
             * real_of_int (round_half_even (x / 2 powr (real_of_int e - 52)))"
proof -
  have "\<lfloor>log 2 \<bar>x\<bar>\<rfloor> = e"
    using assms by (subst floor_log_eq_powr_iff) simp_all
  with assms(1) show ?thesis by (simp add: binary64_def Let_def)
qed

text \<open>A number with a significand below \<open>2^53\<close> is a double: rounding leaves it.\<close>

lemma binary64_exact:
  assumes x: "x = real_of_int m * 2 powr real_of_int k" and m: "\<bar>m\<bar> < 2 ^ 53"
  shows "binary64 x = x"
proof (cases "m = 0")
  case True
  with x show ?thesis by (simp add: binary64_def)
next
  case False
  with x have nz: "x \<noteq> 0" by simp
  define e where "e = \<lfloor>log 2 \<bar>x\<bar>\<rfloor>"
  have pos: "0 < \<bar>x\<bar>" using nz by simp
  have lo: "2 powr real_of_int e \<le> \<bar>x\<bar>"
    using floor_log_eq_powr_iff [of "\<bar>x\<bar>" 2 e] pos by (simp add: e_def)
  have ax: "\<bar>x\<bar> = real_of_int \<bar>m\<bar> * 2 powr real_of_int k"
    by (simp add: x abs_mult)
  have "real_of_int \<bar>m\<bar> < 2 ^ 53" using m by (metis of_int_less_numeral_power_cancel_iff)
  then have "\<bar>x\<bar> < 2 ^ 53 * 2 powr real_of_int k"
    unfolding ax by (intro mult_strict_right_mono) simp_all
  also have "\<dots> = 2 powr (53 + real_of_int k)"
    by (simp add: powr_add)
  finally have "\<bar>x\<bar> < 2 powr (53 + real_of_int k)" .
  with lo have "2 powr real_of_int e < 2 powr (53 + real_of_int k)"
    by (rule le_less_trans)
  then have "real_of_int e < 53 + real_of_int k" by simp
  then have j: "0 \<le> k + 52 - e" by linarith
  define j where "j = nat (k + 52 - e)"
  have kj: "real_of_int k = real_of_int e - 52 + real j" using j by (simp add: j_def)
  have "x / 2 powr (real_of_int e - 52) = real_of_int m * 2 powr (real j)"
    unfolding x kj by (simp add: powr_add)
  also have "\<dots> = real_of_int (m * 2 ^ j)" by (simp add: powr_realpow)
  finally have q: "x / 2 powr (real_of_int e - 52) = real_of_int (m * 2 ^ j)" .
  have "binary64 x = 2 powr (real_of_int e - 52)
      * real_of_int (round_half_even (x / 2 powr (real_of_int e - 52)))"
    using nz by (simp add: binary64_def e_def Let_def)
  also have "\<dots> = 2 powr (real_of_int e - 52) * (x / 2 powr (real_of_int e - 52))"
    unfolding q round_half_even_of_int ..
  also have "\<dots> = x" by simp
  finally show ?thesis .
qed

lemma binary64_dyadic:
  assumes "x * 2 ^ j = real_of_int m" and "\<bar>m\<bar> < 2 ^ 53"
  shows "binary64 x = x"
proof -
  have "x = real_of_int m * 2 powr real_of_int (- int j)"
  proof -
    have "2 powr real_of_int (- int j) = inverse (2 ^ j :: real)"
      by (simp add: powr_minus powr_realpow)
    moreover have "x = real_of_int m * inverse (2 ^ j)"
      using assms(1) by (simp add: field_simps)
    ultimately show ?thesis by simp
  qed
  then show ?thesis using assms(2) by (rule binary64_exact)
qed

lemma binary64_multiple:
  assumes "x = real_of_int m * 2 ^ j" and "\<bar>m\<bar> < 2 ^ 53"
  shows "binary64 x = x"
proof -
  have "x = real_of_int m * 2 powr real_of_int (int j)"
    using assms(1) by (simp add: powr_realpow)
  then show ?thesis using assms(2) by (rule binary64_exact)
qed

lemma binary64_0: "binary64 0 = 0"
  by (simp add: binary64_def)

lemma binary64_1: "binary64 1 = 1"
  by (rule binary64_multiple [of 1 1 0]) simp_all

lemma binary64_2: "binary64 2 = 2"
  by (rule binary64_multiple [of 2 1 1]) simp_all

lemma multiplier_one: "binary64 (2 / binary64 2) = 1"
  by (simp add: binary64_2 binary64_1)

subsection \<open>Period 1\<close>

lemma foldl_ema_step_one:
  "returns_closes e cs \<Longrightarrow>
   foldl (ema_step 1) (e, acc) cs =
     (if cs = [] then e else close (last cs),
      acc @ map (\<lambda>c. \<lparr>time_l = toUtcTimestamp (openTime c),
                       value_l = Number_toFixed4 (close c)\<rparr>) cs)"
  by (induction cs arbitrary: e acc) (simp_all add: ema_step_def Let_def)

lemma returns_closes_exact:
  assumes "\<forall>c\<in>set cs. binary64 (close c) = close c"
    and "cs \<noteq> [] \<longrightarrow> binary64 (close (cs ! 0) - p) = close (cs ! 0) - p"
    and "\<forall>k. Suc k < length cs \<longrightarrow>
           binary64 (close (cs ! Suc k) - close (cs ! k)) = close (cs ! Suc k) - close (cs ! k)"
  shows "returns_closes p cs"
  using assms
proof (induction cs arbitrary: p)
  case Nil
  show ?case by simp
next
  case (Cons c cs)
  from Cons.prems(2) have d: "binary64 (close c - p) = close c - p" by simp
  from Cons.prems(1) have r: "binary64 (close c) = close c" by simp
  have step: "binary64 (binary64 (binary64 (close c - p) * 1) + p) = close c"
    by (simp add: d r)
  have rest: "returns_closes (close c) cs"
  proof (rule Cons.IH)
    show "\<forall>c\<in>set cs. binary64 (close c) = close c" using Cons.prems(1) by simp
    show "cs \<noteq> [] \<longrightarrow> binary64 (close (cs ! 0) - close c) = close (cs ! 0) - close c"
      using Cons.prems(3) [rule_format, of 0] by auto
    show "\<forall>k. Suc k < length cs \<longrightarrow>
           binary64 (close (cs ! Suc k) - close (cs ! k)) = close (cs ! Suc k) - close (cs ! k)"
      using Cons.prems(3) by (auto dest: spec [of _ "Suc k" for k])
  qed
  from step rest show ?case by simp
qed

text \<open>
  C7, as amended. With period 1 the multiplier is the double 1. When the double computation
  \<open>(close - ema) * 1 + ema\<close> returns the close at every candle, the moving average is, candle
  by candle, the close written with four decimals and read back, at the candle's open time
  in seconds; it is the close series itself when writing a close with four decimals and
  reading it back gives the close. The computation returns the close at every candle when
  the closes are doubles and the difference of every two consecutive closes is a double
  (the subtraction and the addition are then exact).
\<close>

theorem computeEma_period_one:
  "(returns_closes (close (candles ! 0)) candles \<longrightarrow>
      computeEma candles 1 =
        map (\<lambda>c. \<lparr>time_l = toUtcTimestamp (openTime c), value_l = Number_toFixed4 (close c)\<rparr>)
          candles
      \<and> ((\<forall>c\<in>set candles. Number_toFixed4 (close c) = close c)
           \<longrightarrow> map value_l (computeEma candles 1) = map close candles))
   \<and> ((\<forall>c\<in>set candles. binary64 (close c) = close c)
       \<and> (\<forall>k. Suc k < length candles \<longrightarrow>
              binary64 (close (candles ! Suc k) - close (candles ! k))
                = close (candles ! Suc k) - close (candles ! k))
      \<longrightarrow> returns_closes (close (candles ! 0)) candles)"
proof (intro conjI impI)
  assume rc: "returns_closes (close (candles ! 0)) candles"
  show eq: "computeEma candles 1 =
        map (\<lambda>c. \<lparr>time_l = toUtcTimestamp (openTime c), value_l = Number_toFixed4 (close c)\<rparr>)
          candles"
    using rc by (simp add: computeEma_def multiplier_one foldl_ema_step_one)
  assume "\<forall>c\<in>set candles. Number_toFixed4 (close c) = close c"
  then show "map value_l (computeEma candles 1) = map close candles"
    unfolding eq by (simp add: comp_def)
next
  assume h: "(\<forall>c\<in>set candles. binary64 (close c) = close c)
       \<and> (\<forall>k. Suc k < length candles \<longrightarrow>
              binary64 (close (candles ! Suc k) - close (candles ! k))
                = close (candles ! Suc k) - close (candles ! k))"
  show "returns_closes (close (candles ! 0)) candles"
  proof (rule returns_closes_exact)
    show "\<forall>c\<in>set candles. binary64 (close c) = close c" using h by blast
    show "candles \<noteq> [] \<longrightarrow>
        binary64 (close (candles ! 0) - close (candles ! 0)) = close (candles ! 0) - close (candles ! 0)"
      by (simp add: binary64_0)
    show "\<forall>k. Suc k < length candles \<longrightarrow>
              binary64 (close (candles ! Suc k) - close (candles ! k))
                = close (candles ! Suc k) - close (candles ! k)" using h by blast
  qed
qed


lemma close_candle_with: "close (candle_with t hi lo cl) = cl"
  by (simp add: candle_with_def toCandle_def)

lemma openTime_candle_with: "openTime (candle_with t hi lo cl) = t"
  by (simp add: candle_with_def toCandle_def)

lemma binary64_50000_12:
  "binary64 (500001200 / 10000) = 6871964166274417 / 137438953472"
proof -
  have "binary64 (500001200 / 10000)
      = 2 powr (real_of_int 15 - 52)
        * real_of_int (round_half_even ((500001200 / 10000) / 2 powr (real_of_int 15 - 52)))"
    by (rule binary64_at) simp_all
  also have "\<dots> = 6871964166274417 / 137438953472"
    by (simp add: round_half_even_def powr_minus)
  finally show ?thesis .
qed

lemma binary64_50123_45:
  "binary64 (501234500 / 10000) = 3444457256203059 / 68719476736"
proof -
  have "binary64 (501234500 / 10000)
      = 2 powr (real_of_int 15 - 52)
        * real_of_int (round_half_even ((501234500 / 10000) / 2 powr (real_of_int 15 - 52)))"
    by (rule binary64_at) simp_all
  also have "\<dots> = 3444457256203059 / 68719476736"
    by (simp add: round_half_even_def powr_minus)
  finally show ?thesis .
qed

lemma Number_toFixed4_50000_12:
  "Number_toFixed4 (6871964166274417 / 137438953472) = 6871964166274417 / 137438953472"
proof -
  have "toFixed4 (6871964166274417 / 137438953472) = 500001200 / 10000"
    by (simp add: toFixed4_def)
  then show ?thesis by (simp only: Number_toFixed4_def binary64_50000_12)
qed

lemma Number_toFixed4_50123_45:
  "Number_toFixed4 (3444457256203059 / 68719476736) = 3444457256203059 / 68719476736"
proof -
  have "toFixed4 (3444457256203059 / 68719476736) = 501234500 / 10000"
    by (simp add: toFixed4_def)
  then show ?thesis by (simp only: Number_toFixed4_def binary64_50123_45)
qed

lemma binary64_minus_1e16: "binary64 (- 10000000000000000) = - 10000000000000000"
  by (rule binary64_multiple [of _ "- 152587890625" 16]) simp_all

lemma binary64_1e16: "binary64 10000000000000000 = 10000000000000000"
  by (rule binary64_multiple [of _ 152587890625 16]) simp_all

lemma binary64_half_minus_1e16:
  "binary64 (- (19999999999999999 / 2)) = - 10000000000000000"
proof -
  have "binary64 (- (19999999999999999 / 2))
      = 2 powr (real_of_int 53 - 52)
        * real_of_int (round_half_even ((- (19999999999999999 / 2)) / 2 powr (real_of_int 53 - 52)))"
    by (rule binary64_at) simp_all
  also have "\<dots> = - 10000000000000000"
    by (simp add: round_half_even_def)
  finally show ?thesis .
qed

text \<open>
  C7, evaluated on two prices: the closes are the doubles written \<^verbatim>\<open>50000.12\<close> and
  \<^verbatim>\<open>50123.45\<close>, whose difference is a double; the moving average is the close series.
\<close>

theorem computeEma_period_one_witness:
  "computeEma [candle_with 0 50001 50000 (6871964166274417 / 137438953472),
               candle_with 300000 50124 50000 (3444457256203059 / 68719476736)] 1
     = [\<lparr>time_l = 0, value_l = 6871964166274417 / 137438953472\<rparr>,
        \<lparr>time_l = 300, value_l = 3444457256203059 / 68719476736\<rparr>]
   \<and> map value_l
        (computeEma [candle_with 0 50001 50000 (6871964166274417 / 137438953472),
                     candle_with 300000 50124 50000 (3444457256203059 / 68719476736)] 1)
     = [6871964166274417 / 137438953472, 3444457256203059 / 68719476736]
   \<and> returns_closes (6871964166274417 / 137438953472)
        [candle_with 0 50001 50000 (6871964166274417 / 137438953472),
         candle_with 300000 50124 50000 (3444457256203059 / 68719476736)]"
proof -
  define cs where "cs = [candle_with 0 50001 50000 (6871964166274417 / 137438953472),
               candle_with 300000 50124 50000 (3444457256203059 / 68719476736)]"
  note inst = computeEma_period_one [of cs]
  have b1: "binary64 (6871964166274417 / 137438953472) = 6871964166274417 / 137438953472"
    by (rule binary64_dyadic [of _ 37 6871964166274417]) simp_all
  have b2: "binary64 (3444457256203059 / 68719476736) = 3444457256203059 / 68719476736"
    by (rule binary64_dyadic [of _ 36 3444457256203059]) simp_all
  have b3: "binary64 (3444457256203059 / 68719476736 - 6871964166274417 / 137438953472)
              = 3444457256203059 / 68719476736 - 6871964166274417 / 137438953472"
    by (rule binary64_dyadic [of _ 37 16950346131701]) simp_all
  have reps: "\<forall>c\<in>set cs. binary64 (close c) = close c"
    by (simp add: cs_def close_candle_with b1 b2)
  have diffs: "\<forall>k. Suc k < length cs \<longrightarrow>
      binary64 (close (cs ! Suc k) - close (cs ! k)) = close (cs ! Suc k) - close (cs ! k)"
  proof (intro allI impI)
    fix k assume "Suc k < length cs"
    then have "k = 0" by (simp add: cs_def)
    then show "binary64 (close (cs ! Suc k) - close (cs ! k)) = close (cs ! Suc k) - close (cs ! k)"
      using b3 by (simp add: cs_def close_candle_with)
  qed
  have rc: "returns_closes (close (cs ! 0)) cs"
    using inst reps diffs by blast
  have fixed: "\<forall>c\<in>set cs. Number_toFixed4 (close c) = close c"
    by (simp add: cs_def close_candle_with Number_toFixed4_50000_12 Number_toFixed4_50123_45)
  have e1: "computeEma cs 1 =
        map (\<lambda>c. \<lparr>time_l = toUtcTimestamp (openTime c), value_l = Number_toFixed4 (close c)\<rparr>) cs"
    using inst rc by blast
  have e2: "map value_l (computeEma cs 1) = map close cs"
    using inst rc fixed by blast
  have "computeEma cs 1 = [\<lparr>time_l = 0, value_l = 6871964166274417 / 137438953472\<rparr>,
        \<lparr>time_l = 300, value_l = 3444457256203059 / 68719476736\<rparr>]"
    unfolding e1
    by (simp add: cs_def close_candle_with openTime_candle_with toUtcTimestamp_def
        Number_toFixed4_50000_12 Number_toFixed4_50123_45)
  moreover have "map value_l (computeEma cs 1)
      = [6871964166274417 / 137438953472, 3444457256203059 / 68719476736]"
    unfolding e2 by (simp add: cs_def close_candle_with)
  moreover have "returns_closes (6871964166274417 / 137438953472) cs"
    using rc by (simp add: cs_def close_candle_with)
  ultimately show ?thesis unfolding cs_def by blast
qed

text \<open>
  C7 as stated, that every value of the moving average with period 1 equals the
  close of its candle, fails in two ways. A close of \<open>2^-17\<close> (about 0.0000076) is written
  \<^verbatim>\<open>0.0000\<close>: the value is 0. After a close of \<open>10^16\<close> a close of 0.5 is lost in the
  subtraction, \<open>0.5 - 10^16\<close> being rounded to \<open>- 10^16\<close>: the value is 0 again, where
  the recurrence over the reals gives 0.5.
\<close>

theorem computeEma_period_one_rounds:
  "computeEma [candle_with 0 1 0 (1 / 131072)] 1 = [\<lparr>time_l = 0, value_l = 0\<rparr>]
   \<and> map value_l (computeEma [candle_with 0 1 0 (1 / 131072)] 1)
       \<noteq> map close [candle_with 0 1 0 (1 / 131072)]
   \<and> computeEma [candle_with 0 10000000000000000 0 10000000000000000,
                  candle_with 300000 10000000000000000 0 (1 / 2)] 1
       = [\<lparr>time_l = 0, value_l = 10000000000000000\<rparr>, \<lparr>time_l = 300, value_l = 0\<rparr>]
   \<and> map value_l (computeEma [candle_with 0 10000000000000000 0 10000000000000000,
                  candle_with 300000 10000000000000000 0 (1 / 2)] 1)
       \<noteq> map close [candle_with 0 10000000000000000 0 10000000000000000,
                  candle_with 300000 10000000000000000 0 (1 / 2)]"
proof -
  have small: "binary64 (1 / 131072) = 1 / 131072"
    by (rule binary64_dyadic [of _ 17 1]) simp_all
  have t0: "Number_toFixed4 0 = 0"
    by (simp add: Number_toFixed4_def toFixed4_def binary64_0)
  have t1: "Number_toFixed4 (1 / 131072) = 0"
    by (simp add: Number_toFixed4_def toFixed4_def binary64_0)
  have t2: "Number_toFixed4 10000000000000000 = 10000000000000000"
    by (simp add: Number_toFixed4_def toFixed4_def binary64_1e16)
  have a: "computeEma [candle_with 0 1 0 (1 / 131072)] 1 = [\<lparr>time_l = 0, value_l = 0\<rparr>]"
    by (simp add: computeEma_def multiplier_one ema_step_def Let_def close_candle_with
        openTime_candle_with toUtcTimestamp_def binary64_0 small t1)
  have b: "computeEma [candle_with 0 10000000000000000 0 10000000000000000,
                  candle_with 300000 10000000000000000 0 (1 / 2)] 1
       = [\<lparr>time_l = 0, value_l = 10000000000000000\<rparr>, \<lparr>time_l = 300, value_l = 0\<rparr>]"
    by (simp add: computeEma_def multiplier_one ema_step_def Let_def close_candle_with
        openTime_candle_with toUtcTimestamp_def binary64_0 binary64_1e16 binary64_minus_1e16
        binary64_half_minus_1e16 t0 t2)
  show ?thesis
    unfolding a b by (simp add: close_candle_with)
qed

section \<open>Properties of the annotation store\<close>

lemma onCanvasMove_drag:
  assumes "draggingHandle st = Some handle" and "selectedDrawingRef st = Some selected"
    and "type_d selected = longpos \<or> type_d selected = shortpos"
    and "4 \<le> length (points selected)"
  shows "onCanvasMove iv (Some p) st =
           st\<lparr>drawings :=
                map (\<lambda>d. if id_d d = id_d selected
                         then d\<lparr>points := drag_points iv handle p (points selected)\<rparr> else d)
                  (drawings st)\<rparr>"
  using assms by (auto simp: onCanvasMove_def Let_def)

lemma drag_points_tp:
  assumes "4 \<le> length ps"
  shows "length (drag_points iv tp p ps) = length ps"
    and "\<forall>k<length ps. k \<noteq> 2 \<longrightarrow> drag_points iv tp p ps ! k = ps ! k"
    and "time (drag_points iv tp p ps ! 2) = time (ps ! 2)"
    and "price (drag_points iv tp p ps ! 2) = price p"
  using assms by (simp_all add: drag_points_def)

lemma drag_points_sl:
  assumes "4 \<le> length ps"
  shows "length (drag_points iv sl p ps) = length ps"
    and "\<forall>k<length ps. k \<noteq> 1 \<longrightarrow> drag_points iv sl p ps ! k = ps ! k"
    and "time (drag_points iv sl p ps ! 1) = time (ps ! 1)"
    and "price (drag_points iv sl p ps ! 1) = price p"
  using assms by (simp_all add: drag_points_def)

lemma drag_points_time:
  assumes "4 \<le> length ps"
  shows "length (drag_points iv time_handle p ps) = length ps"
    and "\<forall>k<length ps. k \<noteq> 3 \<longrightarrow> drag_points iv time_handle p ps ! k = ps ! k"
    and "price (drag_points iv time_handle p ps ! 3) = price (ps ! 3)"
    and "time (drag_points iv time_handle p ps ! 3)
           = max (time (ps ! 0) + real_of_int (INTERVAL_MS iv)) (time p)"
    and "time (drag_points iv time_handle p ps ! 0) + real_of_int (INTERVAL_MS iv)
           \<le> time (drag_points iv time_handle p ps ! 3)"
  using assms by (simp_all add: drag_points_def Let_def)

text \<open>
  C10. While a handle of the selected long or short position (with its four points) is
  dragged, a pointer move writes new points to the drawing with the selected id and to no
  other: the take-profit handle changes only the price of the third point, the stop-loss
  handle only the price of the second, and the time handle only the time of the fourth,
  which becomes \<open>max (entryTime + step) pointerTime\<close>. So after a time-handle drag the
  fourth point of the dragged drawing is at least one interval step after its first.
\<close>

theorem drag_position_handles:
  assumes dragging: "draggingHandle st = Some handle"
    and sel: "selectedDrawingRef st = Some selected"
    and pos: "type_d selected = longpos \<or> type_d selected = shortpos"
    and four: "4 \<le> length (points selected)"
  shows "drawings (onCanvasMove iv (Some p) st) =
           map (\<lambda>d. if id_d d = id_d selected
                    then d\<lparr>points := drag_points iv handle p (points selected)\<rparr> else d)
             (drawings st)
     \<and> length (drag_points iv handle p (points selected)) = length (points selected)
     \<and> (handle = tp \<longrightarrow>
          (\<forall>k<length (points selected). k \<noteq> 2 \<longrightarrow>
               drag_points iv handle p (points selected) ! k = points selected ! k)
          \<and> time (drag_points iv handle p (points selected) ! 2) = time (points selected ! 2)
          \<and> price (drag_points iv handle p (points selected) ! 2) = price p)
     \<and> (handle = sl \<longrightarrow>
          (\<forall>k<length (points selected). k \<noteq> 1 \<longrightarrow>
               drag_points iv handle p (points selected) ! k = points selected ! k)
          \<and> time (drag_points iv handle p (points selected) ! 1) = time (points selected ! 1)
          \<and> price (drag_points iv handle p (points selected) ! 1) = price p)
     \<and> (handle = time_handle \<longrightarrow>
          (\<forall>k<length (points selected). k \<noteq> 3 \<longrightarrow>
               drag_points iv handle p (points selected) ! k = points selected ! k)
          \<and> price (drag_points iv handle p (points selected) ! 3) = price (points selected ! 3)
          \<and> time (drag_points iv handle p (points selected) ! 3)
              = max (time (points selected ! 0) + real_of_int (INTERVAL_MS iv)) (time p)
          \<and> (\<forall>d\<in>set (drawings (onCanvasMove iv (Some p) st)). id_d d = id_d selected \<longrightarrow>
                time (points d ! 0) + real_of_int (INTERVAL_MS iv) \<le> time (points d ! 3)))"
proof -
  let ?np = "drag_points iv handle p (points selected)"
  have mv: "drawings (onCanvasMove iv (Some p) st) =
           map (\<lambda>d. if id_d d = id_d selected then d\<lparr>points := ?np\<rparr> else d) (drawings st)"
    by (simp add: onCanvasMove_drag [OF dragging sel pos four])
  have len: "length ?np = length (points selected)"
    using four by (cases handle) (simp_all add: drag_points_def Let_def)
  have inv: "\<forall>d\<in>set (drawings (onCanvasMove iv (Some p) st)). id_d d = id_d selected \<longrightarrow>
                time (points d ! 0) + real_of_int (INTERVAL_MS iv) \<le> time (points d ! 3)"
    if "handle = time_handle"
    unfolding mv using drag_points_time(5) [OF four, of iv p] that by auto
  from mv len inv drag_points_tp [OF four, of iv p] drag_points_sl [OF four, of iv p]
    drag_points_time [OF four, of iv p]
  show ?thesis by blast
qed

theorem drag_position_handles_witness:
  "draggingHandle (client2 time_handle) = Some time_handle
   \<and> selectedDrawingRef (client2 time_handle) = Some position2
   \<and> type_d position2 = longpos
   \<and> 4 \<le> length (points position2)
   \<and> time (drag_points I5m time_handle \<lparr>time = 400000, price = 105\<rparr> (points position2) ! 3)
       = max (time (points position2 ! 0) + real_of_int (INTERVAL_MS I5m))
             (time \<lparr>time = 400000, price = 105\<rparr>)
   \<and> max (time (points position2 ! 0) + real_of_int (INTERVAL_MS I5m))
          (time \<lparr>time = 400000, price = 105\<rparr>) = 1300000"
proof -
  have dragging: "draggingHandle (client2 time_handle) = Some time_handle"
    by (simp add: client2_def)
  have sel: "selectedDrawingRef (client2 time_handle) = Some position2"
    by (simp add: client2_def)
  have ty: "type_d position2 = longpos" by (simp add: position2_def)
  then have pos: "type_d position2 = longpos \<or> type_d position2 = shortpos" ..
  have four: "4 \<le> length (points position2)" by (simp add: position2_def)
  have val: "max (time (points position2 ! 0) + real_of_int (INTERVAL_MS I5m))
          (time \<lparr>time = 400000, price = 105\<rparr>) = 1300000"
    by (simp add: position2_def)
  from drag_position_handles [OF dragging sel pos four, of I5m "\<lparr>time = 400000, price = 105\<rparr>"]
    dragging sel ty four val
  show ?thesis by blast
qed

lemma find_after_drag:
  "find (\<lambda>d. id_d d = i) (map (\<lambda>d. if id_d d = i then d\<lparr>points := np\<rparr> else d) ds)
     = map_option (\<lambda>d. d\<lparr>points := np\<rparr>) (find (\<lambda>d. id_d d = i) ds)"
  by (induction ds) simp_all

lemma onCanvasMouseUp_request:
  assumes "draggingHandle st = Some handle" and "selectedDrawingId st = Some sid"
    and "find (\<lambda>d. id_d d = sid) (drawings st) = Some d"
  shows "onCanvasMouseUp put st =
           (case put (id_d d)
                   \<lparr>symbol_f = None, type_f = None, points_f = Some (points d), style_f = None\<rparr> of
              Inl err \<Rightarrow> Rejected err (st\<lparr>draggingHandle := None\<rparr>)
            | Inr ok \<Rightarrow> Resolved (st\<lparr>draggingHandle := None\<rparr>))"
  using assms by (simp add: onCanvasMouseUp_def Let_def)

text \<open>
  C2, as amended. Create and delete write the in-memory drawings only after the server has
  confirmed: when the request fails the handler is rejected with the state as it was; when
  it succeeds the created drawing is appended and selected, or the drawings with the
  deleted id are removed. A handle drag is written to the drawings by each pointer move,
  before any request. The mouse-up that ends the drag sends one request, for the id of the
  selected drawing and with the points that drawing then has (after a pointer move: the
  dragged points) and no other field; it resolves or is rejected as that request does, and
  it never writes the drawings, whatever the server answers.
\<close>

theorem create_delete_after_confirmation:
  "(post \<lparr>symbol_b = SYMBOL, type_b = ty, points_b = pts, style_b = default_style ty\<rparr> = Inl e
      \<longrightarrow> saveDrawing post ty pts st = Rejected e st)
   \<and> (post \<lparr>symbol_b = SYMBOL, type_b = ty, points_b = pts, style_b = default_style ty\<rparr> = Inr d
      \<longrightarrow> saveDrawing post ty pts st =
            Resolved (st\<lparr>drawings := drawings st @ [d], selectedDrawingId := Some (id_d d)\<rparr>))
   \<and> (delete i = Inl e \<longrightarrow> onDeleteDrawing delete i st = Rejected e st)
   \<and> (delete i = Inr u \<longrightarrow>
         drawings (state_of (onDeleteDrawing delete i st))
           = filter (\<lambda>d. id_d d \<noteq> i) (drawings st))
   \<and> (draggingHandle st = Some handle \<and> selectedDrawingRef st = Some selected
        \<and> (type_d selected = longpos \<or> type_d selected = shortpos)
        \<and> 4 \<le> length (points selected)
      \<longrightarrow> drawings (onCanvasMove iv (Some p) st) =
            map (\<lambda>d. if id_d d = id_d selected
                     then d\<lparr>points := drag_points iv handle p (points selected)\<rparr> else d)
              (drawings st))
   \<and> drawings (state_of (onCanvasMouseUp put st)) = drawings st
   \<and> (draggingHandle st = Some handle \<and> selectedDrawingId st = Some sid
        \<and> find (\<lambda>d. id_d d = sid) (drawings st) = Some sent
      \<longrightarrow> onCanvasMouseUp put st =
            (case put (id_d sent)
                    \<lparr>symbol_f = None, type_f = None, points_f = Some (points sent),
                     style_f = None\<rparr> of
               Inl err \<Rightarrow> Rejected err (st\<lparr>draggingHandle := None\<rparr>)
             | Inr ok \<Rightarrow> Resolved (st\<lparr>draggingHandle := None\<rparr>)))
   \<and> (draggingHandle st = Some handle \<and> selectedDrawingRef st = Some selected
        \<and> selectedDrawingId st = Some (id_d selected)
        \<and> (type_d selected = longpos \<or> type_d selected = shortpos)
        \<and> 4 \<le> length (points selected)
        \<and> find (\<lambda>d. id_d d = id_d selected) (drawings st) = Some stored
      \<longrightarrow> onCanvasMouseUp put (onCanvasMove iv (Some p) st) =
            (case put (id_d selected)
                    \<lparr>symbol_f = None, type_f = None,
                     points_f = Some (drag_points iv handle p (points selected)),
                     style_f = None\<rparr> of
               Inl err \<Rightarrow> Rejected err ((onCanvasMove iv (Some p) st)\<lparr>draggingHandle := None\<rparr>)
             | Inr ok \<Rightarrow> Resolved ((onCanvasMove iv (Some p) st)\<lparr>draggingHandle := None\<rparr>)))"
proof -
  have move: "drawings (onCanvasMove iv (Some p) st) =
            map (\<lambda>d. if id_d d = id_d selected
                     then d\<lparr>points := drag_points iv handle p (points selected)\<rparr> else d)
              (drawings st)"
    if "draggingHandle st = Some handle \<and> selectedDrawingRef st = Some selected
        \<and> (type_d selected = longpos \<or> type_d selected = shortpos)
        \<and> 4 \<le> length (points selected)"
    using that by (simp add: onCanvasMove_drag)
  have up: "drawings (state_of (onCanvasMouseUp put st)) = drawings st"
    by (auto simp: onCanvasMouseUp_def Let_def split: option.splits sum.splits)
  have req: "onCanvasMouseUp put st =
            (case put (id_d sent)
                    \<lparr>symbol_f = None, type_f = None, points_f = Some (points sent),
                     style_f = None\<rparr> of
               Inl err \<Rightarrow> Rejected err (st\<lparr>draggingHandle := None\<rparr>)
             | Inr ok \<Rightarrow> Resolved (st\<lparr>draggingHandle := None\<rparr>))"
    if "draggingHandle st = Some handle \<and> selectedDrawingId st = Some sid
        \<and> find (\<lambda>d. id_d d = sid) (drawings st) = Some sent"
    using that by (simp add: onCanvasMouseUp_request)
  have dragged: "onCanvasMouseUp put (onCanvasMove iv (Some p) st) =
            (case put (id_d selected)
                    \<lparr>symbol_f = None, type_f = None,
                     points_f = Some (drag_points iv handle p (points selected)),
                     style_f = None\<rparr> of
               Inl err \<Rightarrow> Rejected err ((onCanvasMove iv (Some p) st)\<lparr>draggingHandle := None\<rparr>)
             | Inr ok \<Rightarrow> Resolved ((onCanvasMove iv (Some p) st)\<lparr>draggingHandle := None\<rparr>))"
    if h: "draggingHandle st = Some handle \<and> selectedDrawingRef st = Some selected
        \<and> selectedDrawingId st = Some (id_d selected)
        \<and> (type_d selected = longpos \<or> type_d selected = shortpos)
        \<and> 4 \<le> length (points selected)
        \<and> find (\<lambda>d. id_d d = id_d selected) (drawings st) = Some stored"
  proof -
    let ?np = "drag_points iv handle p (points selected)"
    let ?st = "onCanvasMove iv (Some p) st"
    from h have mv: "?st = st\<lparr>drawings :=
                map (\<lambda>d. if id_d d = id_d selected then d\<lparr>points := ?np\<rparr> else d)
                  (drawings st)\<rparr>"
      by (simp add: onCanvasMove_drag)
    from h have stored_id: "id_d stored = id_d selected"
      by (auto dest: find_Some_iff [THEN iffD1])
    have a: "draggingHandle ?st = Some handle" and b: "selectedDrawingId ?st = Some (id_d selected)"
      using h by (simp_all add: mv)
    have c: "find (\<lambda>d. id_d d = id_d selected) (drawings ?st) = Some (stored\<lparr>points := ?np\<rparr>)"
      using h by (simp add: mv find_after_drag)
    from onCanvasMouseUp_request [OF a b c, of put] stored_id show ?thesis by simp
  qed
  from move up req dragged show ?thesis
    by (auto simp: saveDrawing_def onDeleteDrawing_def)
qed

theorem create_delete_after_confirmation_witness:
  "(\<lambda>b. Inl NetworkError :: api_error + Drawing)
       \<lparr>symbol_b = SYMBOL, type_b = hline, points_b = [\<lparr>time = 0, price = 100\<rparr>],
        style_b = default_style hline\<rparr> = Inl NetworkError
   \<and> saveDrawing (\<lambda>b. Inl NetworkError) hline [\<lparr>time = 0, price = 100\<rparr>] client1
       = Rejected NetworkError client1
   \<and> (\<lambda>i. Inl (HttpError 404) :: api_error + unit) 1 = Inl (HttpError 404)
   \<and> onDeleteDrawing (\<lambda>i. Inl (HttpError 404)) 1 client1 = Rejected (HttpError 404) client1
   \<and> drag_points I5m tp \<lparr>time = 400000, price = 105\<rparr> (points position2)
       = [\<lparr>time = 1000000, price = 100\<rparr>, \<lparr>time = 1000000, price = 99\<rparr>,
          \<lparr>time = 1000000, price = 105\<rparr>, \<lparr>time = 13000000, price = 100\<rparr>]
   \<and> onCanvasMouseUp
         (points_only_server
            [\<lparr>time = 1000000, price = 100\<rparr>, \<lparr>time = 1000000, price = 99\<rparr>,
             \<lparr>time = 1000000, price = 105\<rparr>, \<lparr>time = 13000000, price = 100\<rparr>])
         (onCanvasMove I5m (Some \<lparr>time = 400000, price = 105\<rparr>) (client2 tp))
       = Resolved ((onCanvasMove I5m (Some \<lparr>time = 400000, price = 105\<rparr>) (client2 tp))
                     \<lparr>draggingHandle := None\<rparr>)
   \<and> onCanvasMouseUp (points_only_server (points position2))
         (onCanvasMove I5m (Some \<lparr>time = 400000, price = 105\<rparr>) (client2 tp))
       = Rejected (HttpError 400)
           ((onCanvasMove I5m (Some \<lparr>time = 400000, price = 105\<rparr>) (client2 tp))
              \<lparr>draggingHandle := None\<rparr>)"
proof -
  let ?p = "\<lparr>time = 400000, price = 105\<rparr>"
  let ?np = "[\<lparr>time = 1000000, price = 100\<rparr>, \<lparr>time = 1000000, price = 99\<rparr>,
              \<lparr>time = 1000000, price = 105\<rparr>, \<lparr>time = 13000000, price = 100\<rparr>]"
  let ?body = "\<lparr>symbol_f = None, type_f = None,
                 points_f = Some (drag_points I5m tp ?p (points position2)), style_f = None\<rparr>"
  have p: "(\<lambda>b. Inl NetworkError :: api_error + Drawing)
       \<lparr>symbol_b = SYMBOL, type_b = hline, points_b = [\<lparr>time = 0, price = 100\<rparr>],
        style_b = default_style hline\<rparr> = Inl NetworkError" by simp
  have q: "(\<lambda>i. Inl (HttpError 404) :: api_error + unit) 1 = Inl (HttpError 404)" by simp
  from create_delete_after_confirmation
     [of "\<lambda>b. Inl NetworkError" hline "[\<lparr>time = 0, price = 100\<rparr>]" NetworkError client1]
     p
  have a: "saveDrawing (\<lambda>b. Inl NetworkError) hline [\<lparr>time = 0, price = 100\<rparr>] client1
       = Rejected NetworkError client1" by blast
  from create_delete_after_confirmation
     [of _ _ _ "HttpError 404" client1 _ "\<lambda>i. Inl (HttpError 404)" 1] q
  have b: "onDeleteDrawing (\<lambda>i. Inl (HttpError 404)) 1 client1 = Rejected (HttpError 404) client1"
    by blast
  have np: "drag_points I5m tp ?p (points position2) = ?np"
    by (simp add: drag_points_def position2_def)
  have drag: "draggingHandle (client2 tp) = Some tp
        \<and> selectedDrawingRef (client2 tp) = Some position2
        \<and> selectedDrawingId (client2 tp) = Some (id_d position2)
        \<and> (type_d position2 = longpos \<or> type_d position2 = shortpos)
        \<and> 4 \<le> length (points position2)
        \<and> find (\<lambda>d. id_d d = id_d position2) (drawings (client2 tp)) = Some position2"
    by (simp add: client2_def position2_def drawing1_def)
  have accepted: "points_only_server ?np (id_d position2) ?body = Inr ()"
    by (simp add: points_only_server_def np) (simp add: position2_def)
  have refused: "points_only_server (points position2) (id_d position2) ?body
      = Inl (HttpError 400)"
    by (simp add: points_only_server_def np) (simp add: position2_def)
  from create_delete_after_confirmation
     [where st = "client2 tp" and handle = tp and selected = position2 and stored = position2
        and iv = I5m and p = ?p and put = "points_only_server ?np"] drag
  have "onCanvasMouseUp (points_only_server ?np) (onCanvasMove I5m (Some ?p) (client2 tp)) =
            (case points_only_server ?np (id_d position2) ?body of
               Inl err \<Rightarrow> Rejected err ((onCanvasMove I5m (Some ?p) (client2 tp))\<lparr>draggingHandle := None\<rparr>)
             | Inr ok \<Rightarrow> Resolved ((onCanvasMove I5m (Some ?p) (client2 tp))\<lparr>draggingHandle := None\<rparr>))"
    by blast
  then have c: "onCanvasMouseUp (points_only_server ?np) (onCanvasMove I5m (Some ?p) (client2 tp))
      = Resolved ((onCanvasMove I5m (Some ?p) (client2 tp))\<lparr>draggingHandle := None\<rparr>)"
    by (simp only: accepted sum.case)
  from create_delete_after_confirmation
     [where st = "client2 tp" and handle = tp and selected = position2 and stored = position2
        and iv = I5m and p = ?p and put = "points_only_server (points position2)"] drag
  have "onCanvasMouseUp (points_only_server (points position2))
           (onCanvasMove I5m (Some ?p) (client2 tp)) =
            (case points_only_server (points position2) (id_d position2) ?body of
               Inl err \<Rightarrow> Rejected err ((onCanvasMove I5m (Some ?p) (client2 tp))\<lparr>draggingHandle := None\<rparr>)
             | Inr ok \<Rightarrow> Resolved ((onCanvasMove I5m (Some ?p) (client2 tp))\<lparr>draggingHandle := None\<rparr>))"
    by blast
  then have d: "onCanvasMouseUp (points_only_server (points position2))
           (onCanvasMove I5m (Some ?p) (client2 tp))
      = Rejected (HttpError 400)
          ((onCanvasMove I5m (Some ?p) (client2 tp))\<lparr>draggingHandle := None\<rparr>)"
    by (simp only: refused sum.case)
  from p a q b np c d show ?thesis by blast
qed

text \<open>
  C2 as stated fails. A style patch whose request fails has already put the new style in
  the local drawings. A pointer move of a handle drag writes the local drawings before any
  request is sent, and a mouse-up whose request fails leaves them so.
\<close>

theorem style_patch_applied_before_confirmation:
  "updateSelectedDrawingStyle (\<lambda>i b. Inl NetworkError) [(''color'', JStr ''#ff0000'')] client1
     = Rejected NetworkError
         (client1\<lparr>drawings := [drawing1\<lparr>style := [(''color'', JStr ''#ff0000'')]\<rparr>, position2]\<rparr>)
   \<and> drawings (client1\<lparr>drawings := [drawing1\<lparr>style := [(''color'', JStr ''#ff0000'')]\<rparr>, position2]\<rparr>)
       \<noteq> drawings client1
   \<and> drawings (onCanvasMove I5m (Some \<lparr>time = 400000, price = 105\<rparr>) (client2 tp))
       \<noteq> drawings (client2 tp)
   \<and> onCanvasMouseUp (\<lambda>i b. Inl NetworkError)
        (onCanvasMove I5m (Some \<lparr>time = 400000, price = 105\<rparr>) (client2 tp))
       = Rejected NetworkError
           ((onCanvasMove I5m (Some \<lparr>time = 400000, price = 105\<rparr>) (client2 tp))
              \<lparr>draggingHandle := None\<rparr>)"
  by (simp add: updateSelectedDrawingStyle_def spread_def client1_def client2_def drawing1_def
      position2_def onCanvasMove_def onCanvasMouseUp_def drag_points_def Let_def)

section \<open>Properties of the Monday bands\<close>

text \<open>
  The week start that the code computes with the \<^verbatim>\<open>Date\<close> methods is the week start of the
  calendar, and its Monday test is the Monday of the calendar.
\<close>

lemma week_index:
  fixes t :: int
  shows "(t - 345600000) div 604800000 = (t div 86400000 - 4) div 7"
proof -
  have "(t - 345600000) div (86400000 * 7) = ((t - 345600000) div 86400000) div (7::int)"
    by (rule zdiv_zmult2_eq) simp
  moreover have "(t - 345600000) div (86400000::int) = t div 86400000 - 4"
    using div_mult_self1 [of "86400000::int" t "- 4"] by simp
  ultimately show ?thesis by simp
qed

lemma week_offset:
  fixes t :: int
  shows "(t - 345600000) mod 604800000
           = 86400000 * ((t div 86400000 - 4) mod 7) + t mod 86400000"
proof -
  have "(t - 345600000) mod (86400000 * 7)
      = 86400000 * ((t - 345600000) div 86400000 mod 7) + (t - 345600000) mod (86400000::int)"
    by (rule zmod_zmult2_eq) simp
  moreover have "(t - 345600000) div (86400000::int) = t div 86400000 - 4"
    using div_mult_self1 [of "86400000::int" t "- 4"] by simp
  moreover have "(t - 345600000) mod (86400000::int) = t mod 86400000"
    using mod_mult_self1 [of t "- 4" "86400000::int"] by simp
  ultimately show ?thesis by simp
qed

lemma startOfUtcMonday_iso: "startOfUtcMonday t = iso_week_start t"
proof -
  define d where "d = t div 86400000"
  have "(d - ((d + 4) mod 7 + 6) mod 7) = 4 + (d - 4) div 7 * 7" by presburger
  then show ?thesis
    by (simp add: startOfUtcMonday_def getUTCDay_def msPerDay_def iso_week_start_def Let_def
        week_index d_def [symmetric] algebra_simps)
qed

lemma getUTCDay_monday: "(getUTCDay t = 1) = on_utc_monday t"
proof -
  define d where "d = t div 86400000"
  define r where "r = t mod 86400000"
  have r: "0 \<le> r" "r < 86400000" by (simp_all add: r_def)
  define m where "m = (d - 4) mod 7"
  have m: "0 \<le> m" "m < 7" by (simp_all add: m_def)
  have a: "((d + 4) mod 7 = 1) = (m = 0)" unfolding m_def by presburger
  have b: "(86400000 * m + r < 86400000) = (m = 0)" using m r by auto
  show ?thesis
    by (simp add: getUTCDay_def msPerDay_def on_utc_monday_def week_offset
        d_def [symmetric] r_def [symmetric] m_def [symmetric] a b)
qed

text \<open>The week start of a time is a Monday at midnight, at most a week before it.\<close>

lemma startOfUtcMonday_is_monday:
  "getUTCDay (startOfUtcMonday t) = 1
   \<and> startOfUtcMonday t mod msPerDay = 0
   \<and> startOfUtcMonday t \<le> t
   \<and> t < startOfUtcMonday t + oneWeekMs"
proof -
  define d where "d = t div 86400000"
  define r where "r = t mod 86400000"
  have t: "t = d * 86400000 + r" and r: "0 \<le> r" "r < 86400000"
    by (simp_all add: d_def r_def)
  define k where "k = ((d + 4) mod 7 + 6) mod 7"
  have k: "0 \<le> k" "k < 7" by (simp_all add: k_def)
  have s: "startOfUtcMonday t = (d - k) * 86400000"
    by (simp add: startOfUtcMonday_def getUTCDay_def msPerDay_def Let_def d_def k_def)
  have day: "(d - k + 4) mod 7 = 1" unfolding k_def by presburger
  show ?thesis
    unfolding s using day k r
    by (simp add: getUTCDay_def msPerDay_def oneWeekMs_def t)
qed

subsection \<open>The buckets\<close>

lemma map_fst_bucket_push:
  "map fst (bucket_push k c g) = (if k \<in> set (map fst g) then map fst g else map fst g @ [k])"
proof (induction g)
  case Nil
  show ?case by simp
next
  case (Cons e g)
  obtain k' b where e: "e = (k', b)" by (cases e)
  show ?case
  proof (cases "k' = k")
    case True
    then show ?thesis by (simp add: e)
  next
    case False
    with Cons.IH show ?thesis by (simp add: e)
  qed
qed

lemma distinct_bucket_push:
  "distinct (map fst g) \<Longrightarrow> distinct (map fst (bucket_push k c g))"
  by (simp add: map_fst_bucket_push)

lemma map_of_bucket_push:
  "map_of (bucket_push k c g) k' =
     (if k' = k then Some ((case map_of g k of None \<Rightarrow> [] | Some b \<Rightarrow> b) @ [c])
      else map_of g k')"
  by (induction g) auto

lemma grouped_snoc:
  "grouped (cs @ [c]) = bucket_push (startOfUtcMonday (openTime c)) c (grouped cs)"
  by (simp add: grouped_def)

lemma distinct_grouped: "distinct (map fst (grouped cs))"
  by (induction cs rule: rev_induct) (simp_all add: grouped_snoc distinct_bucket_push, simp add: grouped_def)

lemma map_of_grouped:
  "map_of (grouped cs) k =
     (if filter (\<lambda>c. startOfUtcMonday (openTime c) = k) cs = [] then None
      else Some (filter (\<lambda>c. startOfUtcMonday (openTime c) = k) cs))"
proof (induction cs arbitrary: k rule: rev_induct)
  case Nil
  show ?case by (simp add: grouped_def)
next
  case (snoc c cs)
  show ?case
    by (simp add: grouped_snoc map_of_bucket_push snoc.IH)
qed

lemma grouped_entry:
  "(k, wc) \<in> set (grouped cs) \<longleftrightarrow>
     wc \<noteq> [] \<and> wc = filter (\<lambda>c. startOfUtcMonday (openTime c) = k) cs"
proof -
  have "(k, wc) \<in> set (grouped cs) \<longleftrightarrow> map_of (grouped cs) k = Some wc"
    using distinct_grouped [of cs] by simp
  then show ?thesis by (auto simp: map_of_grouped)
qed

subsection \<open>High and low of a bucket\<close>

lemma foldl_high:
  "foldl (\<lambda>h c. if high c > h then high c else h) h0 cs = Max (insert h0 (high ` set cs))"
proof (induction cs arbitrary: h0)
  case Nil
  show ?case by simp
next
  case (Cons c cs)
  have "Max (insert (if h0 < high c then high c else h0) (high ` set cs))
      = Max (insert h0 (insert (high c) (high ` set cs)))"
    by (cases "high ` set cs = {}") (auto simp: max_def)
  then show ?case by (simp add: Cons.IH)
qed

lemma foldl_low:
  "foldl (\<lambda>l c. if low c < l then low c else l) l0 cs = Min (insert l0 (low ` set cs))"
proof (induction cs arbitrary: l0)
  case Nil
  show ?case by simp
next
  case (Cons c cs)
  have "Min (insert (if low c < l0 then low c else l0) (low ` set cs))
      = Min (insert l0 (insert (low c) (low ` set cs)))"
    by (cases "low ` set cs = {}") (auto simp: min_def)
  then show ?case by (simp add: Cons.IH)
qed

lemma scan_high_Max: "mc \<noteq> [] \<Longrightarrow> scan_high mc = Max (high ` set mc)"
proof -
  assume ne: "mc \<noteq> []"
  then have "high (mc ! 0) \<in> high ` set mc" by (cases mc) simp_all
  then have "insert (high (mc ! 0)) (high ` set mc) = high ` set mc" by blast
  then show ?thesis by (simp add: scan_high_def foldl_high)
qed

lemma scan_low_Min: "mc \<noteq> [] \<Longrightarrow> scan_low mc = Min (low ` set mc)"
proof -
  assume ne: "mc \<noteq> []"
  then have "low (mc ! 0) \<in> low ` set mc" by (cases mc) simp_all
  then have "insert (low (mc ! 0)) (low ` set mc) = low ` set mc" by blast
  then show ?thesis by (simp add: scan_low_def foldl_low)
qed

subsection \<open>The bands\<close>

lemma week_starts_of_bands:
  "map weekStartMs (concat (map (week_range iv) g))
     = map fst (filter (\<lambda>e. filter isMonday (snd e) \<noteq> []) g)"
  by (induction g) (auto simp: week_range_def Let_def)

lemma in_bands:
  "b \<in> set (concat (map (week_range iv) g)) \<longleftrightarrow>
     (\<exists>k wc. (k, wc) \<in> set g \<and> filter isMonday wc \<noteq> []
        \<and> b = \<lparr>weekStartMs = k, weekEndMs = k + oneWeekMs - INTERVAL_MS iv,
                mondayHigh = scan_high (filter isMonday wc),
                mondayLow = scan_low (filter isMonday wc)\<rparr>)"
  by (induction g) (auto simp: week_range_def Let_def)

lemma mondayRanges_eq:
  "mondayRanges iv displayed
     = sort_key weekStartMs (concat (map (week_range iv) (grouped displayed)))"
  by (cases displayed) (simp_all add: mondayRanges_def grouped_def)

lemma monday_filter_of_bucket:
  "filter isMonday (filter (\<lambda>c. startOfUtcMonday (openTime c) = k) cs) = monday_candles_of cs k"
  by (simp add: monday_candles_of_def isMonday_def getUTCDay_monday startOfUtcMonday_iso
      conj_commute)

lemma in_mondayRanges:
  "b \<in> set (mondayRanges iv displayed) \<longleftrightarrow>
     monday_candles_of displayed (weekStartMs b) \<noteq> []
     \<and> b = \<lparr>weekStartMs = weekStartMs b,
            weekEndMs = weekStartMs b + oneWeekMs - INTERVAL_MS iv,
            mondayHigh = Max (high ` set (monday_candles_of displayed (weekStartMs b))),
            mondayLow = Min (low ` set (monday_candles_of displayed (weekStartMs b)))\<rparr>"
  (is "?L \<longleftrightarrow> ?R")
proof
  assume ?L
  then obtain k wc where e: "(k, wc) \<in> set (grouped displayed)"
    and m: "filter isMonday wc \<noteq> []"
    and b: "b = \<lparr>weekStartMs = k, weekEndMs = k + oneWeekMs - INTERVAL_MS iv,
                mondayHigh = scan_high (filter isMonday wc),
                mondayLow = scan_low (filter isMonday wc)\<rparr>"
    unfolding mondayRanges_eq set_sort in_bands by blast
  from e have wc: "wc = filter (\<lambda>c. startOfUtcMonday (openTime c) = k) displayed"
    by (simp add: grouped_entry)
  have mc: "filter isMonday wc = monday_candles_of displayed k"
    unfolding wc by (rule monday_filter_of_bucket)
  from m mc have ne: "monday_candles_of displayed k \<noteq> []" by simp
  have k: "weekStartMs b = k" by (simp add: b)
  show ?R
    unfolding k using ne b mc by (simp add: scan_high_Max scan_low_Min)
next
  assume r: ?R
  define k where "k = weekStartMs b"
  define wc where "wc = filter (\<lambda>c. startOfUtcMonday (openTime c) = k) displayed"
  have mc: "filter isMonday wc = monday_candles_of displayed k"
    unfolding wc_def by (rule monday_filter_of_bucket)
  from r have ne: "monday_candles_of displayed k \<noteq> []" by (simp add: k_def)
  with mc have "wc \<noteq> []" by auto
  then have e: "(k, wc) \<in> set (grouped displayed)" by (simp add: grouped_entry wc_def)
  from r have "b = \<lparr>weekStartMs = k, weekEndMs = k + oneWeekMs - INTERVAL_MS iv,
                mondayHigh = scan_high (filter isMonday wc),
                mondayLow = scan_low (filter isMonday wc)\<rparr>"
    using ne by (simp add: mc scan_high_Max scan_low_Min k_def)
  with e ne mc show ?L
    unfolding mondayRanges_eq set_sort in_bands by auto
qed

lemma distinct_week_starts:
  "distinct (map weekStartMs (mondayRanges iv displayed))"
proof -
  have "distinct (map weekStartMs (concat (map (week_range iv) (grouped displayed))))"
    unfolding week_starts_of_bands
    using distinct_grouped [of displayed] by (rule distinct_map_filter)
  then have "distinct (concat (map (week_range iv) (grouped displayed)))
      \<and> inj_on weekStartMs (set (concat (map (week_range iv) (grouped displayed))))"
    by (simp add: distinct_map)
  then show ?thesis
    unfolding mondayRanges_eq by (simp add: distinct_map)
qed

text \<open>
  C6. The Monday bands of a displayed candle set, against the weeks of the calendar: a
  week (starting on its Monday at midnight UTC) has a band exactly when some displayed
  candle opens on the Monday of that week, so a week without a Monday candle is left out;
  the high of a band is the maximum high and its low the minimum low over the candles
  that open on the Monday of its week, and over no other candle; its end is its week start
  plus seven days minus the interval step; and the bands come in ascending order of week
  start, one per week.
\<close>

theorem monday_bands:
  "(\<forall>w. (w \<in> weekStartMs ` set (mondayRanges iv displayed))
          = (monday_candles_of displayed w \<noteq> []))
   \<and> (\<forall>b\<in>set (mondayRanges iv displayed).
         mondayHigh b = Max (high ` set (monday_candles_of displayed (weekStartMs b)))
       \<and> mondayLow b = Min (low ` set (monday_candles_of displayed (weekStartMs b)))
       \<and> weekEndMs b = weekStartMs b + 7 * 24 * 60 * 60 * 1000 - INTERVAL_MS iv)
   \<and> sorted (map weekStartMs (mondayRanges iv displayed))
   \<and> distinct (map weekStartMs (mondayRanges iv displayed))"
proof (intro conjI allI ballI)
  fix w
  show "(w \<in> weekStartMs ` set (mondayRanges iv displayed))
          = (monday_candles_of displayed w \<noteq> [])"
  proof
    assume "w \<in> weekStartMs ` set (mondayRanges iv displayed)"
    then obtain b where "b \<in> set (mondayRanges iv displayed)" "w = weekStartMs b" by blast
    then show "monday_candles_of displayed w \<noteq> []" by (simp add: in_mondayRanges)
  next
    assume ne: "monday_candles_of displayed w \<noteq> []"
    let ?b = "\<lparr>weekStartMs = w, weekEndMs = w + oneWeekMs - INTERVAL_MS iv,
            mondayHigh = Max (high ` set (monday_candles_of displayed w)),
            mondayLow = Min (low ` set (monday_candles_of displayed w))\<rparr>"
    have "?b \<in> set (mondayRanges iv displayed)"
      by (subst in_mondayRanges) (simp add: ne)
    then have "weekStartMs ?b \<in> weekStartMs ` set (mondayRanges iv displayed)"
      by (rule imageI)
    then show "w \<in> weekStartMs ` set (mondayRanges iv displayed)" by simp
  qed
next
  fix b
  assume b: "b \<in> set (mondayRanges iv displayed)"
  then have eq: "b = \<lparr>weekStartMs = weekStartMs b,
            weekEndMs = weekStartMs b + oneWeekMs - INTERVAL_MS iv,
            mondayHigh = Max (high ` set (monday_candles_of displayed (weekStartMs b))),
            mondayLow = Min (low ` set (monday_candles_of displayed (weekStartMs b)))\<rparr>"
    by (simp add: in_mondayRanges)
  show "mondayHigh b = Max (high ` set (monday_candles_of displayed (weekStartMs b)))"
    by (subst eq) simp
  show "mondayLow b = Min (low ` set (monday_candles_of displayed (weekStartMs b)))"
    by (subst eq) simp
  show "weekEndMs b = weekStartMs b + 7 * 24 * 60 * 60 * 1000 - INTERVAL_MS iv"
    by (subst eq) (simp add: oneWeekMs_def)
next
  show "sorted (map weekStartMs (mondayRanges iv displayed))"
    unfolding mondayRanges_eq by (rule sorted_sort_key)
next
  show "distinct (map weekStartMs (mondayRanges iv displayed))"
    by (rule distinct_week_starts)
qed

theorem monday_bands_witness:
  "mondayRanges I5m week_candles
       = [\<lparr>weekStartMs = 345600000, weekEndMs = 950100000, mondayHigh = 12, mondayLow = 5\<rparr>,
          \<lparr>weekStartMs = 950400000, weekEndMs = 1554900000, mondayHigh = 70, mondayLow = 60\<rparr>]
   \<and> monday_candles_of week_candles 345600000
       = [candle_with 345600000 10 5 8, candle_with 345900000 12 7 9]
   \<and> monday_candles_of week_candles 950400000 = [candle_with 954000000 70 60 65]
   \<and> iso_week_start 1728000000 = 1555200000
   \<and> monday_candles_of week_candles 1555200000 = []
   \<and> 1555200000 \<notin> weekStartMs ` set (mondayRanges I5m week_candles)
   \<and> 950400000 \<in> weekStartMs ` set (mondayRanges I5m week_candles)
   \<and> sorted (map weekStartMs (mondayRanges I5m week_candles))
   \<and> distinct (map weekStartMs (mondayRanges I5m week_candles))"
proof -
  have ev: "mondayRanges I5m week_candles
       = [\<lparr>weekStartMs = 345600000, weekEndMs = 950100000, mondayHigh = 12, mondayLow = 5\<rparr>,
          \<lparr>weekStartMs = 950400000, weekEndMs = 1554900000, mondayHigh = 70, mondayLow = 60\<rparr>]"
    by (simp add: mondayRanges_def grouped_def week_range_def week_candles_def candle_with_def
        toCandle_def startOfUtcMonday_def getUTCDay_def msPerDay_def isMonday_def scan_high_def
        scan_low_def oneWeekMs_def Let_def)
  have first: "monday_candles_of week_candles 345600000
       = [candle_with 345600000 10 5 8, candle_with 345900000 12 7 9]"
    by (simp add: monday_candles_of_def week_candles_def candle_with_def toCandle_def
        iso_week_start_def on_utc_monday_def)
  have second: "monday_candles_of week_candles 950400000 = [candle_with 954000000 70 60 65]"
    by (simp add: monday_candles_of_def week_candles_def candle_with_def toCandle_def
        iso_week_start_def on_utc_monday_def)
  have third: "iso_week_start 1728000000 = 1555200000"
    by (simp add: iso_week_start_def)
  have none: "monday_candles_of week_candles 1555200000 = []"
    by (simp add: monday_candles_of_def week_candles_def candle_with_def toCandle_def
        iso_week_start_def on_utc_monday_def)
  have some: "monday_candles_of week_candles 950400000 \<noteq> []"
    by (simp add: second)
  from monday_bands [of I5m week_candles] none some
  have "1555200000 \<notin> weekStartMs ` set (mondayRanges I5m week_candles)
      \<and> 950400000 \<in> weekStartMs ` set (mondayRanges I5m week_candles)
      \<and> sorted (map weekStartMs (mondayRanges I5m week_candles))
      \<and> distinct (map weekStartMs (mondayRanges I5m week_candles))"
    by blast
  with ev first second third none show ?thesis by blast
qed

end
